theory Spec2Isabelle
  imports Complex_Main "HOL-Library.AList"
begin

section \<open>JavaScript values\<close>

text \<open>
  The SDK handles values decoded from the wire with dynamic checks (\<open>typeof\<close>,
  truthiness, \<open>Array.isArray\<close>), so the model keeps them dynamically typed.  A number
  is the rational a finite double denotes, or one of the two infinities that
  \<open>JSON.parse\<close> yields on overflow.  \<open>JUndefined\<close> is the result of reading a
  property that is not there.  \<open>JFunction n\<close> is a built-in function of the runtime,
  such as \<open>Object.prototype.toString\<close>, known by its name: no JSON text denotes one,
  but a read with a computed key can return one.
\<close>

datatype jsnum = Fin rat | PInf | NInf

datatype js_type = TUndefined | TObject | TBoolean | TNumber | TString | TFunction

datatype json =
    JUndefined
  | JNull
  | JBool bool
  | JNum jsnum
  | JStr string
  | JArr "json list"
  | JObj "(string \<times> json) list"
  | JFunction string

fun typeof :: "json \<Rightarrow> js_type" where
  "typeof JUndefined = TUndefined"
| "typeof JNull = TObject"
| "typeof (JBool b) = TBoolean"
| "typeof (JNum n) = TNumber"
| "typeof (JStr s) = TString"
| "typeof (JArr xs) = TObject"
| "typeof (JObj kvs) = TObject"
| "typeof (JFunction n) = TFunction"

fun truthy :: "json \<Rightarrow> bool" where
  "truthy JUndefined = False"
| "truthy JNull = False"
| "truthy (JBool b) = b"
| "truthy (JNum n) = (n \<noteq> Fin 0)"
| "truthy (JStr s) = (s \<noteq> [])"
| "truthy (JArr xs) = True"
| "truthy (JObj kvs) = True"
| "truthy (JFunction n) = True"

fun isArray :: "json \<Rightarrow> bool" where
  "isArray (JArr xs) = True"
| "isArray v = False"

definition nullish :: "json \<Rightarrow> bool" where
  "nullish v = (v = JNull \<or> v = JUndefined)"

text \<open>Array index keys: the canonical decimal strings \<open>0\<close>, \<open>1\<close>, \<open>2\<close>, ...\<close>

definition digit_of :: "char \<Rightarrow> nat option" where
  "digit_of c = (let n = (of_char c :: nat) in if 48 \<le> n \<and> n \<le> 57 then Some (n - 48) else None)"

fun index_value :: "string \<Rightarrow> nat \<Rightarrow> nat option" where
  "index_value [] acc = Some acc"
| "index_value (c # cs) acc =
     (case digit_of c of None \<Rightarrow> None | Some d \<Rightarrow> index_value cs (10 * acc + d))"

definition array_index :: "string \<Rightarrow> nat option" where
  "array_index k =
     (if k = [] \<or> (hd k = CHR ''0'' \<and> k \<noteq> ''0'') then None else index_value k 0)"

definition digit_char :: "nat \<Rightarrow> char" where
  "digit_char d = char_of (48 + d)"

function show_nat :: "nat \<Rightarrow> string" where
  "show_nat n = (if n < 10 then [digit_char n] else show_nat (n div 10) @ [digit_char (n mod 10)])"
  by pat_completeness auto
termination
  by (relation "measure id") auto

text \<open>
  \<open>js_get v k\<close> is the read \<open>v.k\<close> of a property that the SDK names in its source:
  \<open>event\<close>, \<open>channel\<close>, \<open>data\<close>, \<open>socket_id\<close>, \<open>activity_timeout\<close>,
  \<open>code\<close>, \<open>presence\<close>, \<open>count\<close>, \<open>ids\<close>, \<open>hash\<close>, \<open>user_id\<close>,
  \<open>user_info\<close>.  No built-in prototype has a member of one of these names, so the own
  properties of the value decide, and a string, number or boolean has none of them.
  Reading from \<open>null\<close> or \<open>undefined\<close> throws in JavaScript; every caller below tests
  \<open>nullish\<close> first and takes the throwing branch itself.  The read with a computed
  key, \<open>hash[userId]\<close>, is \<open>js_index\<close> below.
\<close>

fun js_get :: "json \<Rightarrow> string \<Rightarrow> json" where
  "js_get (JObj kvs) k = (case map_of kvs k of Some v \<Rightarrow> v | None \<Rightarrow> JUndefined)"
| "js_get (JArr xs) k =
     (if k = ''length'' then JNum (Fin (of_nat (length xs)))
      else (case array_index k of
              Some i \<Rightarrow> if i < length xs then xs ! i else JUndefined
            | None \<Rightarrow> JUndefined))"
| "js_get v k = JUndefined"

text \<open>
  The own enumerable properties copied by an object spread \<open>{...v}\<close> or collected by
  a rest pattern.  It is applied to the presence hash only, which is an object or an array.
\<close>

fun own_entries :: "json \<Rightarrow> (string \<times> json) list" where
  "own_entries (JObj kvs) = kvs"
| "own_entries (JArr xs) = zip (map show_nat [0..<length xs]) xs"
| "own_entries v = []"

definition starts_with :: "string \<Rightarrow> string \<Rightarrow> bool" where
  "starts_with p s = (take (length p) s = p)"

text \<open>
  Built-in functions of the JavaScript runtime, taken as parameters:
  \<open>JSON.parse\<close> (\<open>None\<close> when it throws), \<open>JSON.stringify\<close> (which returns
  \<open>undefined\<close> for \<open>undefined\<close>), the numeric coercion \<open>ToNumber\<close> on values that
  are not numbers (\<open>None\<close> for \<open>NaN\<close>), and the prototype chains: \<open>inherited v k\<close> is
  the member named \<open>k\<close> that the value \<open>v\<close> inherits, \<open>undefined\<close> when there is none.
\<close>

record builtins =
  JSON_parse :: "json \<Rightarrow> json option"
  JSON_stringify :: "json \<Rightarrow> json"
  ToNumber :: "json \<Rightarrow> jsnum option"
  inherited :: "json \<Rightarrow> string \<Rightarrow> json"

text \<open>
  \<open>js_index B v k\<close> is the read \<open>v[k]\<close> with a computed key, which can be any string:
  the own property of that name when the value has one, the inherited member otherwise.
  For a plain object \<open>{}\<close> and the key \<open>toString\<close> it is a function.
\<close>

fun has_own :: "json \<Rightarrow> string \<Rightarrow> bool" where
  "has_own (JObj kvs) k = (map_of kvs k \<noteq> None)"
| "has_own (JArr xs) k =
     (k = ''length'' \<or> (case array_index k of Some i \<Rightarrow> i < length xs | None \<Rightarrow> False))"
| "has_own v k = False"

definition js_index :: "builtins \<Rightarrow> json \<Rightarrow> string \<Rightarrow> json" where
  "js_index B v k = (if has_own v k then js_get v k else inherited B v k)"

definition js_number :: "builtins \<Rightarrow> json \<Rightarrow> jsnum option" where
  "js_number B v = (case v of JNum n \<Rightarrow> Some n | _ \<Rightarrow> ToNumber B v)"

text \<open>\<open>v >= lo && v <= hi\<close> for numeric literals \<open>lo\<close>, \<open>hi\<close>.\<close>

definition js_between :: "builtins \<Rightarrow> json \<Rightarrow> rat \<Rightarrow> rat \<Rightarrow> bool" where
  "js_between B v lo hi =
     (case js_number B v of
        Some (Fin r) \<Rightarrow> lo \<le> r \<and> r \<le> hi
      | _ \<Rightarrow> False)"

section \<open>The object graph of one client\<close>

datatype ConnectionState = Initialized | Connecting | Connected | Unavailable | Disconnected

fun state_name :: "ConnectionState \<Rightarrow> string" where
  "state_name Initialized = ''initialized''"
| "state_name Connecting = ''connecting''"
| "state_name Connected = ''connected''"
| "state_name Unavailable = ''unavailable''"
| "state_name Disconnected = ''disconnected''"

datatype ready_state = CONNECTING | OPEN | CLOSING | CLOSED

text \<open>The three closures the connection passes to \<open>setTimeout\<close>, and their delays.\<close>

datatype timer_callback = CallConnect | SendPing | ForceClose

datatype delay = Millis nat | SecondsAsMillis json

text \<open>
  An event callback is a function supplied by the user, known only by an identifier,
  or the closure that \<open>subscribe\<close> binds to \<open>__internal_trigger\<close>, which
  captures the channel name.  A user function is opaque: the model records that it was
  called and with what, and takes it not to call back into the client while it runs.
\<close>

datatype callback = UserFn nat | InternalTrigger string

record PresenceInfo =
  user_id :: string
  user_info :: json

record presence_state =
  count :: json
  ids :: "string list"
  hash :: json

text \<open>
  A \<open>Channel\<close> object.  \<open>isPresenceChannel\<close> is the class tag
  (\<open>instanceof PresenceChannel\<close>); the last two fields exist on presence channels only.
\<close>

record channel =
  name :: string
  bindings :: "(string \<times> callback list) list"
  subscribed :: bool
  isPresenceChannel :: bool
  presence :: presence_state
  self :: "PresenceInfo option"

text \<open>
  What the client does to the outside world, in order.  \<open>WsSend w msg\<close> is
  \<open>ws.send(JSON.stringify(msg))\<close> on socket \<open>w\<close>: it keeps the frame object
  that was serialised.  \<open>WsCloseCall w code\<close> is \<open>ws.close(code, ...)\<close>;
  \<open>Called k d\<close> is the user function \<open>k\<close> called with \<open>d\<close>; \<open>FetchAuth\<close> is
  the call of \<open>fetchAuth\<close> with the socket identifier and the channel name;
  \<open>OnMessage\<close> and \<open>OnStateChange\<close> are the connection calling the two callbacks
  it was constructed with.  The texts of warnings and of thrown errors are abbreviated.
\<close>

datatype effect =
    WsNew nat
  | WsSend nat json
  | WsCloseCall nat "nat option"
  | Called nat json
  | ConsoleWarn string json
  | FetchAuth nat json string
  | OnMessage json
  | OnStateChange ConnectionState ConnectionState

text \<open>
  One \<open>Apinator\<close> instance with its \<open>Connection\<close>, the channel objects it has
  created (\<open>heap\<close>), and the environment: the sockets it opened with their ready
  states, the pending timers, the authentication calls in flight (each remembers the
  channel object its continuation captured), and the effects so far.
\<close>

record sys =
  ws :: "nat option"
  state :: ConnectionState
  reconnectAttempts :: nat
  reconnectTimer :: "nat option"
  activityTimer :: "nat option"
  socketId :: json
  channels :: "(string \<times> nat) list"
  pendingPresenceSelf :: "string \<rightharpoonup> PresenceInfo"
  globalBindings :: "(string \<times> nat list) list"
  authEndpoint :: json
  heap :: "nat \<rightharpoonup> channel"
  nextObj :: nat
  sockets :: "nat \<rightharpoonup> ready_state"
  timers :: "(nat \<times> timer_callback \<times> delay) list"
  nextHandle :: nat
  inflight :: "nat \<rightharpoonup> nat"
  socketCtorThrows :: bool
  effects :: "effect list"

definition emitEffect :: "effect \<Rightarrow> sys \<Rightarrow> sys" where
  "emitEffect e s = s\<lparr>effects := effects s @ [e]\<rparr>"

section \<open>Connection.send\<close>

definition send :: "json \<Rightarrow> sys \<Rightarrow> sys" where
  "send msg s =
     (case ws s of
        None \<Rightarrow> s
      | Some w \<Rightarrow> if sockets s w = Some OPEN then emitEffect (WsSend w msg) s else s)"

section \<open>Channel\<close>

definition new_Channel :: "string \<Rightarrow> bool \<Rightarrow> channel" where
  "new_Channel n p =
     \<lparr>name = n, bindings = [], subscribed = False, isPresenceChannel = p,
      presence = \<lparr>count = JNum (Fin 0), ids = [], hash = JObj []\<rparr>, self = None\<rparr>"

definition upd_chan :: "nat \<Rightarrow> (channel \<Rightarrow> channel) \<Rightarrow> sys \<Rightarrow> sys" where
  "upd_chan cid f s =
     (case heap s cid of None \<Rightarrow> s | Some ch \<Rightarrow> s\<lparr>heap := (heap s)(cid \<mapsto> f ch)\<rparr>)"

definition set_add :: "'a \<Rightarrow> 'a list \<Rightarrow> 'a list" where
  "set_add x xs = (if x \<in> set xs then xs else xs @ [x])"

definition bind_state :: "string \<Rightarrow> callback \<Rightarrow> channel \<Rightarrow> channel" where
  "bind_state event cb ch =
     (let cbs = (case map_of (bindings ch) event of None \<Rightarrow> [] | Some cs \<Rightarrow> cs)
      in ch\<lparr>bindings := AList.update event (set_add cb cbs) (bindings ch)\<rparr>)"

definition Channel_bind :: "nat \<Rightarrow> string \<Rightarrow> callback \<Rightarrow> sys \<Rightarrow> sys" where
  "Channel_bind cid event cb s = upd_chan cid (bind_state event cb) s"

definition unbind_state :: "string \<Rightarrow> callback option \<Rightarrow> channel \<Rightarrow> channel" where
  "unbind_state event cbo ch =
     (case cbo of
        None \<Rightarrow> ch\<lparr>bindings := AList.delete event (bindings ch)\<rparr>
      | Some cb \<Rightarrow>
          (case map_of (bindings ch) event of
             None \<Rightarrow> ch
           | Some cbs \<Rightarrow> ch\<lparr>bindings := AList.update event (removeAll cb cbs) (bindings ch)\<rparr>))"

definition Channel_unbind :: "nat \<Rightarrow> string \<Rightarrow> callback option \<Rightarrow> sys \<Rightarrow> sys" where
  "Channel_unbind cid event cbo s = upd_chan cid (unbind_state event cbo) s"

definition Channel_unbindAll :: "nat \<Rightarrow> sys \<Rightarrow> sys" where
  "Channel_unbindAll cid s = upd_chan cid (\<lambda>ch. ch\<lparr>bindings := []\<rparr>) s"

text \<open>
  One callback run inside the \<open>try\<close> of \<open>emit\<close>.  The internal closure destructures
  its payload, which throws on \<open>null\<close>/\<open>undefined\<close>; \<open>emit\<close> swallows that.
\<close>

fun run_callback :: "builtins \<Rightarrow> json \<Rightarrow> callback \<Rightarrow> sys \<Rightarrow> sys" where
  "run_callback B d (UserFn k) s = emitEffect (Called k d) s"
| "run_callback B d (InternalTrigger channelName) s =
     (if nullish d then s
      else send (JObj [(''event'', js_get d ''event''),
                       (''channel'', JStr channelName),
                       (''data'', JSON_stringify B (js_get d ''data''))]) s)"

definition emit :: "builtins \<Rightarrow> nat \<Rightarrow> string \<Rightarrow> json \<Rightarrow> sys \<Rightarrow> sys" where
  "emit B cid event d s =
     (case heap s cid of
        None \<Rightarrow> s
      | Some ch \<Rightarrow>
          (case map_of (bindings ch) event of
             None \<Rightarrow> s
           | Some cbs \<Rightarrow> fold (run_callback B d) cbs s))"

datatype js_error = SyntaxError | TypeError | Error string

definition Channel_trigger :: "builtins \<Rightarrow> nat \<Rightarrow> string \<Rightarrow> json \<Rightarrow> sys \<Rightarrow> js_error + sys" where
  "Channel_trigger B cid event d s =
     (case heap s cid of
        None \<Rightarrow> Inr s
      | Some ch \<Rightarrow>
          if \<not> starts_with ''client-'' event
          then Inl (Error ''Client events must be prefixed with client-'')
          else if \<not> starts_with ''private-'' (name ch) \<and> \<not> starts_with ''presence-'' (name ch)
          then Inl (Error ''Client events can only be triggered on private or presence channels'')
          else Inr (emit B cid ''__internal_trigger''
                      (JObj [(''event'', JStr event), (''data'', d)]) s))"

definition Channel_handleSubscribed :: "builtins \<Rightarrow> nat \<Rightarrow> json \<Rightarrow> sys \<Rightarrow> sys" where
  "Channel_handleSubscribed B cid d s =
     emit B cid ''realtime:subscription_succeeded'' d
       (upd_chan cid (\<lambda>ch. ch\<lparr>subscribed := True\<rparr>) s)"

definition Channel_handleEvent :: "builtins \<Rightarrow> nat \<Rightarrow> string \<Rightarrow> json \<Rightarrow> sys \<Rightarrow> sys" where
  "Channel_handleEvent B cid event d s = emit B cid event d s"

definition Channel_handleError :: "builtins \<Rightarrow> nat \<Rightarrow> json \<Rightarrow> sys \<Rightarrow> sys" where
  "Channel_handleError B cid d s =
     emit B cid ''realtime:subscription_error'' d
       (upd_chan cid (\<lambda>ch. ch\<lparr>subscribed := False\<rparr>) s)"

section \<open>PresenceChannel\<close>

definition memberCount :: "channel \<Rightarrow> json" where
  "memberCount ch = count (presence ch)"

definition me :: "channel \<Rightarrow> PresenceInfo option" where
  "me ch = self ch"

fun members_of :: "builtins \<Rightarrow> json \<Rightarrow> string list \<Rightarrow> PresenceInfo list" where
  "members_of B h [] = []"
| "members_of B h (userId # rest) =
     (let userInfo = js_index B h userId
      in if \<not> truthy userInfo then members_of B h rest
         else \<lparr>user_id = userId, user_info = userInfo\<rparr> # members_of B h rest)"

definition getMembers :: "builtins \<Rightarrow> channel \<Rightarrow> PresenceInfo list" where
  "getMembers B ch = members_of B (hash (presence ch)) (ids (presence ch))"

definition getMember :: "builtins \<Rightarrow> channel \<Rightarrow> string \<Rightarrow> PresenceInfo option" where
  "getMember B ch userId =
     (let userInfo = js_index B (hash (presence ch)) userId
      in if \<not> truthy userInfo then None else Some \<lparr>user_id = userId, user_info = userInfo\<rparr>)"

definition clearPresenceState_state :: "channel \<Rightarrow> channel" where
  "clearPresenceState_state ch =
     ch\<lparr>presence := \<lparr>count = JNum (Fin 0), ids = [], hash = JObj []\<rparr>, self := None\<rparr>"

definition PresenceChannel_clearPresenceState :: "nat \<Rightarrow> sys \<Rightarrow> sys" where
  "PresenceChannel_clearPresenceState cid s = upd_chan cid clearPresenceState_state s"

definition isPresenceData :: "json \<Rightarrow> bool" where
  "isPresenceData d =
     (if \<not> truthy d \<or> typeof d \<noteq> TObject then False
      else let maybePresence = js_get d ''presence''
           in if \<not> truthy maybePresence \<or> typeof maybePresence \<noteq> TObject then False
              else typeof (js_get maybePresence ''count'') = TNumber
                 \<and> isArray (js_get maybePresence ''ids'')
                 \<and> truthy (js_get maybePresence ''hash'')
                 \<and> typeof (js_get maybePresence ''hash'') = TObject)"

fun array_elems :: "json \<Rightarrow> json list" where
  "array_elems (JArr xs) = xs"
| "array_elems v = []"

text \<open>\<open>ids.filter((id) => typeof id === "string")\<close>\<close>

fun string_ids :: "json list \<Rightarrow> string list" where
  "string_ids [] = []"
| "string_ids (JStr s # vs) = s # string_ids vs"
| "string_ids (v # vs) = string_ids vs"

text \<open>
  The assignments of \<open>PresenceChannel.handleSubscribed\<close>, in the order of the source:
  the object literal first takes the count of the wire, the next statement overwrites it.
\<close>

definition handleSubscribed_state :: "json \<Rightarrow> PresenceInfo option \<Rightarrow> channel \<Rightarrow> channel" where
  "handleSubscribed_state d selfo ch =
     (let ch1 = clearPresenceState_state ch;
          ch2 = (case selfo of None \<Rightarrow> ch1 | Some i \<Rightarrow> ch1\<lparr>self := Some i\<rparr>)
      in if isPresenceData d then
           (let p = js_get d ''presence'';
                idsv = (if isArray (js_get p ''ids'') then array_elems (js_get p ''ids'') else []);
                h = (if nullish (js_get p ''hash'') then JObj [] else js_get p ''hash'');
                pr = \<lparr>count = js_get p ''count'', ids = string_ids idsv, hash = h\<rparr>
            in ch2\<lparr>presence := pr\<lparr>count := JNum (Fin (of_nat (length (ids pr))))\<rparr>\<rparr>)
         else ch2)"

definition PresenceChannel_handleSubscribed ::
  "builtins \<Rightarrow> nat \<Rightarrow> json \<Rightarrow> PresenceInfo option \<Rightarrow> sys \<Rightarrow> sys" where
  "PresenceChannel_handleSubscribed B cid d selfo s =
     (let s1 = upd_chan cid (handleSubscribed_state d selfo) s;
          s2 = (if \<not> isPresenceData d \<and> \<not> nullish d
                then emitEffect (ConsoleWarn ''malformed presence snapshot'' d) s1 else s1)
      in Channel_handleSubscribed B cid d s2)"

text \<open>
  The payloads of member events are typed \<open>PresenceInfo\<close> and
  \<open>PresenceMemberRemovedData\<close>; the router passes them only after its type guards, so
  \<open>user_id\<close> is a string there and \<open>str_of\<close> reads it.
\<close>

fun str_of :: "json \<Rightarrow> string" where
  "str_of (JStr s) = s"
| "str_of v = []"

definition handleMemberAdded_state :: "string \<Rightarrow> json \<Rightarrow> channel \<Rightarrow> channel" where
  "handleMemberAdded_state uid uinfo ch =
     (let pr = presence ch;
          ids1 = (if uid \<in> set (ids pr) then ids pr else ids pr @ [uid]);
          h1 = JObj (AList.update uid uinfo (own_entries (hash pr)))
      in ch\<lparr>presence := \<lparr>count = JNum (Fin (of_nat (length ids1))), ids = ids1, hash = h1\<rparr>\<rparr>)"

definition PresenceChannel_handleMemberAdded :: "builtins \<Rightarrow> nat \<Rightarrow> json \<Rightarrow> sys \<Rightarrow> sys" where
  "PresenceChannel_handleMemberAdded B cid info s =
     emit B cid ''realtime:member_added'' info
       (upd_chan cid
          (handleMemberAdded_state (str_of (js_get info ''user_id'')) (js_get info ''user_info'')) s)"

definition handleMemberRemoved_state :: "string \<Rightarrow> channel \<Rightarrow> channel" where
  "handleMemberRemoved_state uid ch =
     (let pr = presence ch;
          ids1 = filter (\<lambda>i. i \<noteq> uid) (ids pr);
          rest = JObj (AList.delete uid (own_entries (hash pr)))
      in ch\<lparr>presence := \<lparr>count = JNum (Fin (of_nat (length ids1))), ids = ids1, hash = rest\<rparr>\<rparr>)"

definition PresenceChannel_handleMemberRemoved :: "builtins \<Rightarrow> nat \<Rightarrow> json \<Rightarrow> sys \<Rightarrow> sys" where
  "PresenceChannel_handleMemberRemoved B cid info s =
     emit B cid ''realtime:member_removed'' info
       (upd_chan cid (handleMemberRemoved_state (str_of (js_get info ''user_id''))) s)"

text \<open>The operations that change a presence channel's member state, for runs of them.\<close>

datatype presence_op =
    ClearPresenceState
  | HandleSubscribed json "PresenceInfo option"
  | HandleMemberAdded string json
  | HandleMemberRemoved string

fun presence_step :: "presence_op \<Rightarrow> channel \<Rightarrow> channel" where
  "presence_step ClearPresenceState ch = clearPresenceState_state ch"
| "presence_step (HandleSubscribed d selfo) ch = handleSubscribed_state d selfo ch"
| "presence_step (HandleMemberAdded uid uinfo) ch = handleMemberAdded_state uid uinfo ch"
| "presence_step (HandleMemberRemoved uid) ch = handleMemberRemoved_state uid ch"

section \<open>Apinator: routing and the subscribe handshake\<close>

definition parseData :: "builtins \<Rightarrow> json \<Rightarrow> json" where
  "parseData B d = (case JSON_parse B d of Some v \<Rightarrow> v | None \<Rightarrow> d)"

definition parsePresenceSelf :: "builtins \<Rightarrow> json \<Rightarrow> PresenceInfo option" where
  "parsePresenceSelf B channelData =
     (case JSON_parse B channelData of
        None \<Rightarrow> None
      | Some parsed \<Rightarrow>
          if nullish parsed then None
          else let uid = js_get parsed ''user_id''; uinfo = js_get parsed ''user_info''
               in if typeof uid \<noteq> TString \<or> length (str_of uid) = 0 \<or> \<not> truthy uinfo
                     \<or> typeof uinfo \<noteq> TObject \<or> isArray uinfo
                  then None
                  else Some \<lparr>user_id = str_of uid, user_info = uinfo\<rparr>)"

definition isPresenceInfo :: "json \<Rightarrow> bool" where
  "isPresenceInfo d =
     (if \<not> truthy d \<or> typeof d \<noteq> TObject then False
      else typeof (js_get d ''user_id'') = TString
         \<and> length (str_of (js_get d ''user_id'')) > 0
         \<and> truthy (js_get d ''user_info'')
         \<and> typeof (js_get d ''user_info'') = TObject
         \<and> \<not> isArray (js_get d ''user_info''))"

definition isPresenceMemberRemovedData :: "json \<Rightarrow> bool" where
  "isPresenceMemberRemovedData d =
     (if \<not> truthy d \<or> typeof d \<noteq> TObject then False
      else typeof (js_get d ''user_id'') = TString \<and> length (str_of (js_get d ''user_id'')) > 0)"

definition is_presence :: "sys \<Rightarrow> nat \<Rightarrow> bool" where
  "is_presence s cid = (case heap s cid of None \<Rightarrow> False | Some ch \<Rightarrow> isPresenceChannel ch)"

definition Apinator_clearPresenceState :: "sys \<Rightarrow> sys" where
  "Apinator_clearPresenceState s =
     fold (\<lambda>cid t. if is_presence t cid then PresenceChannel_clearPresenceState cid t else t)
       (map snd (channels s)) (s\<lparr>pendingPresenceSelf := Map.empty\<rparr>)"

definition auth_error :: "string \<Rightarrow> json" where
  "auth_error msg =
     JObj [(''type'', JStr ''AuthError''), (''error'', JStr msg), (''status'', JNum (Fin 403))]"

definition subscribe_frame :: "builtins \<Rightarrow> (string \<times> json) list \<Rightarrow> json" where
  "subscribe_frame B subscribeData =
     JObj [(''event'', JStr ''realtime:subscribe''),
           (''data'', JSON_stringify B (JObj subscribeData))]"

text \<open>
  \<open>sendSubscribe\<close> is an \<open>async\<close> function with one \<open>await\<close>.  \<open>sendSubscribe\<close>
  below is the part that runs synchronously inside the caller, up to the call of
  \<open>fetchAuth\<close>; \<open>sendSubscribe_resume\<close> is the continuation, run when the
  authentication call settles.  The continuation keeps the \<open>channel\<close> object it
  captured, whatever has happened to the registry meanwhile.
\<close>

definition sendSubscribe :: "builtins \<Rightarrow> nat \<Rightarrow> sys \<Rightarrow> sys" where
  "sendSubscribe B cid s =
     (case heap s cid of
        None \<Rightarrow> s
      | Some ch \<Rightarrow>
          (let isPrivate = starts_with ''private-'' (name ch);
               isPresence = starts_with ''presence-'' (name ch)
           in if isPrivate \<or> isPresence then
                (if \<not> truthy (authEndpoint s)
                 then Channel_handleError B cid (auth_error ''No auth endpoint configured'') s
                 else if \<not> truthy (socketId s)
                 then Channel_handleError B cid (auth_error ''Not connected'') s
                 else emitEffect (FetchAuth (nextObj s) (socketId s) (name ch))
                        (s\<lparr>inflight := (inflight s)(nextObj s \<mapsto> cid), nextObj := Suc (nextObj s)\<rparr>))
              else send (subscribe_frame B [(''channel'', JStr (name ch))]) s))"

text \<open>
  How an authentication call settles: with a response object \<open>{auth, channel_data?}\<close>
  (\<open>JUndefined\<close> for a field that is absent), or rejected, with the text \<open>String(err)\<close>
  of what was thrown.
\<close>

datatype auth_result = AuthResponse json json | AuthRejected string

definition sendSubscribe_resume :: "builtins \<Rightarrow> nat \<Rightarrow> auth_result \<Rightarrow> sys \<Rightarrow> sys" where
  "sendSubscribe_resume B r res s =
     (case inflight s r of
        None \<Rightarrow> s
      | Some cid \<Rightarrow>
          (case heap s cid of
             None \<Rightarrow> s
           | Some ch \<Rightarrow>
               (let s0 = s\<lparr>inflight := (inflight s)(r := None)\<rparr>;
                    n = name ch;
                    isPresence = starts_with ''presence-'' n;
                    forget = (\<lambda>t. t\<lparr>pendingPresenceSelf := (pendingPresenceSelf t)(n := None)\<rparr>)
                in case res of
                     AuthRejected err \<Rightarrow> Channel_handleError B cid (auth_error err) (forget s0)
                   | AuthResponse auth channel_data \<Rightarrow>
                       if isPresence then
                         (if \<not> truthy channel_data
                          then Channel_handleError B cid
                                 (auth_error ''channel_data required for presence channels'') (forget s0)
                          else (case parsePresenceSelf B channel_data of
                                  None \<Rightarrow>
                                    Channel_handleError B cid (auth_error ''invalid channel_data'')
                                      (forget s0)
                                | Some i \<Rightarrow>
                                    send (subscribe_frame B
                                            [(''channel'', JStr n), (''auth'', auth),
                                             (''channel_data'', channel_data)])
                                      (s0\<lparr>pendingPresenceSelf := (pendingPresenceSelf s0)(n \<mapsto> i)\<rparr>)))
                       else if truthy channel_data
                       then send (subscribe_frame B
                                    [(''channel'', JStr n), (''auth'', auth),
                                     (''channel_data'', channel_data)]) s0
                       else send (subscribe_frame B [(''channel'', JStr n), (''auth'', auth)]) s0)))"

definition fire_global :: "nat list \<Rightarrow> json \<Rightarrow> sys \<Rightarrow> sys" where
  "fire_global cbs d s = fold (\<lambda>k. emitEffect (Called k d)) cbs s"

definition route :: "builtins \<Rightarrow> json \<Rightarrow> string \<Rightarrow> nat \<Rightarrow> sys \<Rightarrow> sys" where
  "route B msg c cid s =
     (let ev = js_get msg ''event''; d = parseData B (js_get msg ''data'')
      in if ev = JStr ''realtime:subscription_succeeded'' then
           (if is_presence s cid
            then (let t = PresenceChannel_handleSubscribed B cid d (pendingPresenceSelf s c) s
                  in t\<lparr>pendingPresenceSelf := (pendingPresenceSelf t)(c := None)\<rparr>)
            else Channel_handleSubscribed B cid d s)
         else if ev = JStr ''realtime:subscription_error'' then
           (let s1 = s\<lparr>pendingPresenceSelf := (pendingPresenceSelf s)(c := None)\<rparr>;
                s2 = (if is_presence s1 cid then PresenceChannel_clearPresenceState cid s1 else s1)
            in Channel_handleError B cid d s2)
         else if ev = JStr ''realtime:member_added'' \<and> is_presence s cid then
           (if \<not> isPresenceInfo d
            then emitEffect (ConsoleWarn ''malformed realtime:member_added payload'' d) s
            else PresenceChannel_handleMemberAdded B cid d s)
         else if ev = JStr ''realtime:member_removed'' \<and> is_presence s cid then
           (if \<not> isPresenceMemberRemovedData d
            then emitEffect (ConsoleWarn ''malformed realtime:member_removed payload'' d) s
            else PresenceChannel_handleMemberRemoved B cid d s)
         else (case ev of JStr e \<Rightarrow> Channel_handleEvent B cid e d s | _ \<Rightarrow> s))"

definition Apinator_handleMessage :: "builtins \<Rightarrow> json \<Rightarrow> sys \<Rightarrow> sys" where
  "Apinator_handleMessage B msg s =
     (let s1 = (case js_get msg ''event'' of
                  JStr e \<Rightarrow>
                    (case map_of (globalBindings s) e of
                       None \<Rightarrow> s
                     | Some cbs \<Rightarrow> fire_global cbs (parseData B (js_get msg ''data'')) s)
                | _ \<Rightarrow> s)
      in if truthy (js_get msg ''channel'') then
           (case js_get msg ''channel'' of
              JStr c \<Rightarrow>
                (case map_of (channels s1) c of
                   None \<Rightarrow> s1
                 | Some cid \<Rightarrow> route B msg c cid s1)
            | _ \<Rightarrow> s1)
         else s1)"

definition Apinator_handleStateChange ::
  "builtins \<Rightarrow> ConnectionState \<Rightarrow> ConnectionState \<Rightarrow> sys \<Rightarrow> sys" where
  "Apinator_handleStateChange B prv cur s =
     (let s1 = (if (prv = Connected \<and> cur = Connecting) \<or> cur = Disconnected \<or> cur = Unavailable
                then Apinator_clearPresenceState s else s);
          s2 = (if cur = Connected
                then fold (sendSubscribe B) (map snd (channels s1)) s1 else s1)
      in case map_of (globalBindings s2) ''state_change'' of
           None \<Rightarrow> s2
         | Some cbs \<Rightarrow>
             fire_global cbs
               (JObj [(''previous'', JStr (state_name prv)), (''current'', JStr (state_name cur))]) s2)"

section \<open>Connection\<close>

definition setState :: "builtins \<Rightarrow> ConnectionState \<Rightarrow> sys \<Rightarrow> sys" where
  "setState B st s =
     (let prv = state s; s1 = s\<lparr>state := st\<rparr>
      in if prv \<noteq> st
         then Apinator_handleStateChange B prv st (emitEffect (OnStateChange prv st) s1)
         else s1)"

text \<open>
  Timers.  \<open>setTimeout\<close> hands out the next handle (handles are positive, hence
  truthy, so \<open>if (this.reconnectTimer)\<close> is the test for \<open>Some\<close>); \<open>clearTimeout\<close>
  removes a pending timer and does nothing for a handle that has fired or been cleared.
\<close>

definition setTimeout :: "timer_callback \<Rightarrow> delay \<Rightarrow> sys \<Rightarrow> sys" where
  "setTimeout cb d s =
     s\<lparr>timers := timers s @ [(nextHandle s, cb, d)], nextHandle := Suc (nextHandle s)\<rparr>"

definition clearTimeout :: "nat \<Rightarrow> sys \<Rightarrow> sys" where
  "clearTimeout h s = s\<lparr>timers := AList.delete h (timers s)\<rparr>"

definition clearTimers :: "sys \<Rightarrow> sys" where
  "clearTimers s =
     (let s1 = (case reconnectTimer s of
                  None \<Rightarrow> s
                | Some h \<Rightarrow> (clearTimeout h s)\<lparr>reconnectTimer := None\<rparr>)
      in case activityTimer s1 of
           None \<Rightarrow> s1
         | Some h \<Rightarrow> (clearTimeout h s1)\<lparr>activityTimer := None\<rparr>)"

definition resetActivityTimer :: "json \<Rightarrow> sys \<Rightarrow> sys" where
  "resetActivityTimer timeoutSeconds s =
     (let s1 = (case activityTimer s of None \<Rightarrow> s | Some h \<Rightarrow> clearTimeout h s)
      in (setTimeout SendPing (SecondsAsMillis timeoutSeconds) s1)
           \<lparr>activityTimer := Some (nextHandle s1)\<rparr>)"

text \<open>
  \<open>ws.close()\<close> on the socket object: an open or connecting socket starts closing; its
  close event comes later, from the environment.
\<close>

definition ws_close :: "nat \<Rightarrow> nat option \<Rightarrow> sys \<Rightarrow> sys" where
  "ws_close w code s =
     emitEffect (WsCloseCall w code)
       (if sockets s w = Some OPEN \<or> sockets s w = Some CONNECTING
        then s\<lparr>sockets := (sockets s)(w \<mapsto> CLOSING)\<rparr> else s)"

definition disconnect :: "builtins \<Rightarrow> sys \<Rightarrow> sys" where
  "disconnect B s =
     (let s1 = setState B Disconnected (clearTimers s)
      in case ws s1 of
           None \<Rightarrow> s1
         | Some w \<Rightarrow> (ws_close w (Some 1000) s1)\<lparr>ws := None\<rparr>)"

definition handleDisconnect :: "builtins \<Rightarrow> sys \<Rightarrow> sys" where
  "handleDisconnect B s =
     (let s1 = clearTimers (s\<lparr>ws := None\<rparr>)
      in if state s1 = Disconnected then s1
         else if reconnectAttempts s1 < 6 then
           (let s2 = setState B Connecting s1;
                d = min (1000 * 2 ^ reconnectAttempts s2) 30000;
                s3 = s2\<lparr>reconnectAttempts := reconnectAttempts s2 + 1\<rparr>
            in (setTimeout CallConnect (Millis d) s3)\<lparr>reconnectTimer := Some (nextHandle s3)\<rparr>)
         else setState B Unavailable s1)"

definition connect :: "builtins \<Rightarrow> sys \<Rightarrow> sys" where
  "connect B s =
     (if state s = Connected \<or> state s = Connecting then s
      else (let s1 = setState B Connecting s
            in if socketCtorThrows s1 then handleDisconnect B s1
               else emitEffect (WsNew (nextHandle s1))
                      (s1\<lparr>ws := Some (nextHandle s1),
                          sockets := (sockets s1)(nextHandle s1 \<mapsto> CONNECTING),
                          nextHandle := Suc (nextHandle s1)\<rparr>)))"

definition onMessage :: "builtins \<Rightarrow> json \<Rightarrow> sys \<Rightarrow> sys" where
  "onMessage B msg s = Apinator_handleMessage B msg (emitEffect (OnMessage msg) s)"

text \<open>
  \<open>Connection.handleMessage\<close>.  \<open>Inl\<close> is an exception that leaves the handler: the
  frame is \<open>null\<close>, or the payload of a control frame does not parse or is \<open>null\<close>.
  Every such throw comes before the first assignment.
\<close>

definition Connection_handleMessage :: "builtins \<Rightarrow> json \<Rightarrow> sys \<Rightarrow> js_error + sys" where
  "Connection_handleMessage B msg s =
     (if nullish msg then Inl TypeError
      else if js_get msg ''event'' = JStr ''realtime:connection_established'' then
        (case JSON_parse B (js_get msg ''data'') of
           None \<Rightarrow> Inl SyntaxError
         | Some d \<Rightarrow>
             if nullish d then Inl TypeError
             else (let s1 = s\<lparr>socketId := js_get d ''socket_id''\<rparr>;
                       timeout = (if truthy (js_get d ''activity_timeout'')
                                  then js_get d ''activity_timeout'' else JNum (Fin 120));
                       s2 = setState B Connected s1;
                       s3 = resetActivityTimer timeout s2
                   in Inr (onMessage B msg s3)))
      else if js_get msg ''event'' = JStr ''realtime:pong'' then Inr (onMessage B msg s)
      else if js_get msg ''event'' = JStr ''realtime:error'' then
        (case JSON_parse B (js_get msg ''data'') of
           None \<Rightarrow> Inl SyntaxError
         | Some d \<Rightarrow>
             if nullish d then Inl TypeError
             else if js_between B (js_get d ''code'') 4000 4004 then Inr (disconnect B s)
             else Inr (onMessage B msg s))
      else Inr (onMessage B msg s))"

text \<open>The handlers that \<open>connect\<close> installs on each socket, and the timer closures.\<close>

definition ws_onopen :: "sys \<Rightarrow> sys" where
  "ws_onopen s = s\<lparr>reconnectAttempts := 0\<rparr>"

definition ws_onmessage :: "builtins \<Rightarrow> string \<Rightarrow> sys \<Rightarrow> js_error + sys" where
  "ws_onmessage B raw s =
     (case JSON_parse B (JStr raw) of
        None \<Rightarrow> Inr s
      | Some msg \<Rightarrow> Connection_handleMessage B msg s)"

definition ws_onclose :: "builtins \<Rightarrow> sys \<Rightarrow> sys" where
  "ws_onclose B s = handleDisconnect B s"

definition ping_frame :: json where
  "ping_frame = JObj [(''event'', JStr ''realtime:ping''), (''data'', JStr ''{}'')]"

definition fire_timer :: "builtins \<Rightarrow> nat \<Rightarrow> sys \<Rightarrow> sys" where
  "fire_timer B h s =
     (case map_of (timers s) h of
        None \<Rightarrow> s
      | Some (cb, d) \<Rightarrow>
          (let s1 = s\<lparr>timers := AList.delete h (timers s)\<rparr>
           in case cb of
                CallConnect \<Rightarrow> connect B s1
              | SendPing \<Rightarrow>
                  (let s2 = send ping_frame s1
                   in (setTimeout ForceClose (Millis 30000) s2)\<lparr>activityTimer := Some (nextHandle s2)\<rparr>)
              | ForceClose \<Rightarrow>
                  (case ws s1 of None \<Rightarrow> s1 | Some w \<Rightarrow> ws_close w None s1)))"

section \<open>Apinator: the public interface\<close>

definition subscribe :: "builtins \<Rightarrow> string \<Rightarrow> sys \<Rightarrow> nat \<times> sys" where
  "subscribe B channelName s =
     (case map_of (channels s) channelName of
        Some cid \<Rightarrow> (cid, s)
      | None \<Rightarrow>
          (let cid = nextObj s;
               ch = new_Channel channelName (starts_with ''presence-'' channelName);
               s1 = s\<lparr>heap := (heap s)(cid \<mapsto> ch), nextObj := Suc cid,
                      channels := AList.update channelName cid (channels s)\<rparr>;
               s2 = Channel_bind cid ''__internal_trigger'' (InternalTrigger channelName) s1;
               s3 = (if state s2 = Connected then sendSubscribe B cid s2 else s2)
           in (cid, s3)))"

definition unsubscribe :: "builtins \<Rightarrow> string \<Rightarrow> sys \<Rightarrow> sys" where
  "unsubscribe B channelName s =
     (case map_of (channels s) channelName of
        None \<Rightarrow> s
      | Some cid \<Rightarrow>
          (let s1 = send (JObj [(''event'', JStr ''realtime:unsubscribe''),
                                (''data'', JSON_stringify B (JObj [(''channel'', JStr channelName)]))]) s;
               s2 = s1\<lparr>pendingPresenceSelf := (pendingPresenceSelf s1)(channelName := None)\<rparr>;
               s3 = (if is_presence s2 cid then PresenceChannel_clearPresenceState cid s2 else s2);
               s4 = Channel_unbindAll cid s3
           in s4\<lparr>channels := AList.delete channelName (channels s4)\<rparr>))"

definition Apinator_channel :: "sys \<Rightarrow> string \<Rightarrow> nat option" where
  "Apinator_channel s channelName = map_of (channels s) channelName"

definition Apinator_bind :: "string \<Rightarrow> nat \<Rightarrow> sys \<Rightarrow> sys" where
  "Apinator_bind event k s =
     (let cbs = (case map_of (globalBindings s) event of None \<Rightarrow> [] | Some cs \<Rightarrow> cs)
      in s\<lparr>globalBindings := AList.update event (set_add k cbs) (globalBindings s)\<rparr>)"

definition Apinator_unbind :: "string \<Rightarrow> nat option \<Rightarrow> sys \<Rightarrow> sys" where
  "Apinator_unbind event ko s =
     (case ko of
        None \<Rightarrow> s\<lparr>globalBindings := AList.delete event (globalBindings s)\<rparr>
      | Some k \<Rightarrow>
          (case map_of (globalBindings s) event of
             None \<Rightarrow> s
           | Some cbs \<Rightarrow> s\<lparr>globalBindings := AList.update event (removeAll k cbs) (globalBindings s)\<rparr>))"

definition Apinator_trigger :: "builtins \<Rightarrow> string \<Rightarrow> string \<Rightarrow> json \<Rightarrow> sys \<Rightarrow> js_error + sys" where
  "Apinator_trigger B channelName event d s =
     (if \<not> starts_with ''client-'' event
      then Inl (Error ''Client events must be prefixed with client-'')
      else (case map_of (channels s) channelName of
              None \<Rightarrow> Inl (Error ''Channel is not subscribed'')
            | Some cid \<Rightarrow>
                (case heap s cid of
                   None \<Rightarrow> Inr s
                 | Some ch \<Rightarrow>
                     if \<not> subscribed ch then Inl (Error ''Channel is not yet subscribed'')
                     else Channel_trigger B cid event d s)))"

section \<open>Runs\<close>

text \<open>
  Everything that can happen to a client: calls of the public interface (on the client,
  or on a channel object the caller holds), notifications from a socket, a pending timer
  firing, an authentication call settling.  A socket notifies as the WebSocket interface
  says: \<open>open\<close> once while connecting, messages only while open, \<open>close\<close> once.  An
  exception that leaves a handler leaves the state as it was, since every throw in the
  SDK comes before the handler's first assignment.
\<close>

datatype event =
    UserConnect
  | UserDisconnect
  | UserSubscribe string
  | UserUnsubscribe string
  | UserBind string nat
  | UserUnbind string "nat option"
  | UserTrigger string string json
  | ChanBind nat string nat
  | ChanUnbind nat string "nat option"
  | ChanUnbindAll nat
  | ChanTrigger nat string json
  | WsOpen nat
  | WsMessage nat string
  | WsClose nat
  | TimerFires nat
  | AuthSettles nat auth_result

definition or_unchanged :: "sys \<Rightarrow> js_error + sys \<Rightarrow> sys" where
  "or_unchanged s r = (case r of Inl e \<Rightarrow> s | Inr t \<Rightarrow> t)"

fun step :: "builtins \<Rightarrow> event \<Rightarrow> sys \<Rightarrow> sys" where
  "step B UserConnect s = connect B s"
| "step B UserDisconnect s = disconnect B s"
| "step B (UserSubscribe n) s = snd (subscribe B n s)"
| "step B (UserUnsubscribe n) s = unsubscribe B n s"
| "step B (UserBind e k) s = Apinator_bind e k s"
| "step B (UserUnbind e ko) s = Apinator_unbind e ko s"
| "step B (UserTrigger n e d) s = or_unchanged s (Apinator_trigger B n e d s)"
| "step B (ChanBind cid e k) s = Channel_bind cid e (UserFn k) s"
| "step B (ChanUnbind cid e ko) s = Channel_unbind cid e (map_option UserFn ko) s"
| "step B (ChanUnbindAll cid) s = Channel_unbindAll cid s"
| "step B (ChanTrigger cid e d) s = or_unchanged s (Channel_trigger B cid e d s)"
| "step B (WsOpen w) s =
     (if sockets s w = Some CONNECTING
      then ws_onopen (s\<lparr>sockets := (sockets s)(w \<mapsto> OPEN)\<rparr>) else s)"
| "step B (WsMessage w raw) s =
     (if sockets s w = Some OPEN then or_unchanged s (ws_onmessage B raw s) else s)"
| "step B (WsClose w) s =
     (if sockets s w = None \<or> sockets s w = Some CLOSED then s
      else ws_onclose B (s\<lparr>sockets := (sockets s)(w \<mapsto> CLOSED)\<rparr>))"
| "step B (TimerFires h) s = fire_timer B h s"
| "step B (AuthSettles r res) s = sendSubscribe_resume B r res s"

definition run :: "builtins \<Rightarrow> event list \<Rightarrow> sys \<Rightarrow> sys" where
  "run B evs s = fold (step B) evs s"

text \<open>\<open>new Apinator(options)\<close>, in an environment where opening a socket works or throws.\<close>

definition new_Apinator :: "json \<Rightarrow> bool \<Rightarrow> sys" where
  "new_Apinator endpoint ctorThrows =
     \<lparr>ws = None, state = Initialized, reconnectAttempts = 0, reconnectTimer = None,
      activityTimer = None, socketId = JNull, channels = [], pendingPresenceSelf = Map.empty,
      globalBindings = [], authEndpoint = endpoint, heap = Map.empty, nextObj = 0,
      sockets = Map.empty, timers = [], nextHandle = 1, inflight = Map.empty,
      socketCtorThrows = ctorThrows, effects = []\<rparr>"

section \<open>Notions used by the properties\<close>

text \<open>
  What the code of \<open>Apinator\<close> and of the channels cannot change: the fields of the
  connection, the sockets and timers, and the effects that only the connection produces.
\<close>

fun conn_effect :: "effect \<Rightarrow> bool" where
  "conn_effect (WsNew w) = True"
| "conn_effect (WsCloseCall w c) = True"
| "conn_effect (OnMessage m) = True"
| "conn_effect (OnStateChange p c) = True"
| "conn_effect e = False"

definition conn_view where
  "conn_view s =
     (ws s, state s, reconnectAttempts s, reconnectTimer s, activityTimer s, socketId s,
      sockets s, timers s, nextHandle s, socketCtorThrows s, filter conn_effect (effects s))"

text \<open>The events that run code of the connection.\<close>

fun conn_event :: "event \<Rightarrow> bool" where
  "conn_event UserConnect = True"
| "conn_event UserDisconnect = True"
| "conn_event (WsOpen w) = True"
| "conn_event (WsMessage w raw) = True"
| "conn_event (WsClose w) = True"
| "conn_event (TimerFires h) = True"
| "conn_event e = False"

text \<open>Every pending timer is the one its field of the connection refers to.\<close>

definition timers_owned :: "sys \<Rightarrow> bool" where
  "timers_owned s =
     list_all (\<lambda>(h, cb, d). (cb = CallConnect \<longrightarrow> reconnectTimer s = Some h)
                           \<and> (cb \<noteq> CallConnect \<longrightarrow> activityTimer s = Some h))
       (timers s)"

text \<open>The invocations of the connection's message callback, in order.\<close>

fun message_of :: "effect \<Rightarrow> json option" where
  "message_of (OnMessage m) = Some m"
| "message_of e = None"

definition messages_delivered :: "sys \<Rightarrow> json list" where
  "messages_delivered s = List.map_filter message_of (effects s)"

text \<open>
  An inbound text frame with event \<open>realtime:error\<close> whose decoded payload carries a
  numeric code from 4000 to 4004.
\<close>

definition fatal_error_frame :: "builtins \<Rightarrow> string \<Rightarrow> bool" where
  "fatal_error_frame B raw =
     (case JSON_parse B (JStr raw) of
        None \<Rightarrow> False
      | Some msg \<Rightarrow>
          js_get msg ''event'' = JStr ''realtime:error'' \<and>
          (case JSON_parse B (js_get msg ''data'') of
             None \<Rightarrow> False
           | Some d \<Rightarrow> (case js_get d ''code'' of
                          JNum (Fin c) \<Rightarrow> 4000 \<le> c \<and> c \<le> 4004
                        | _ \<Rightarrow> False)))"

text \<open>An inbound text frame with event \<open>realtime:connection_established\<close>.\<close>

definition establishes :: "builtins \<Rightarrow> string \<Rightarrow> bool" where
  "establishes B raw =
     (case JSON_parse B (JStr raw) of
        None \<Rightarrow> False
      | Some msg \<Rightarrow> js_get msg ''event'' = JStr ''realtime:connection_established'')"

fun establishing :: "builtins \<Rightarrow> event \<Rightarrow> bool" where
  "establishing B (WsMessage w raw) = establishes B raw"
| "establishing B e = False"

text \<open>The events that start a session again: a call of \<open>connect\<close>, or the server establishing one.\<close>

fun restarts :: "builtins \<Rightarrow> event \<Rightarrow> bool" where
  "restarts B UserConnect = True"
| "restarts B e = establishing B e"




text \<open>
  A runtime for concrete runs: \<open>JSON.parse\<close> is a finite table of the texts that
  occur, \<open>JSON.stringify\<close> a table of the values that occur, and a plain object
  inherits the methods of \<open>Object.prototype\<close> (its accessor \<open>__proto__\<close> is left
  out).  The concrete runs read computed keys from plain objects only.
\<close>

definition Object_prototype :: "(string \<times> json) list" where
  "Object_prototype =
     [(''constructor'', JFunction ''Object''),
      (''hasOwnProperty'', JFunction ''Object.prototype.hasOwnProperty''),
      (''isPrototypeOf'', JFunction ''Object.prototype.isPrototypeOf''),
      (''propertyIsEnumerable'', JFunction ''Object.prototype.propertyIsEnumerable''),
      (''toLocaleString'', JFunction ''Object.prototype.toLocaleString''),
      (''toString'', JFunction ''Object.prototype.toString''),
      (''valueOf'', JFunction ''Object.prototype.valueOf''),
      (''__defineGetter__'', JFunction ''Object.prototype.__defineGetter__''),
      (''__defineSetter__'', JFunction ''Object.prototype.__defineSetter__''),
      (''__lookupGetter__'', JFunction ''Object.prototype.__lookupGetter__''),
      (''__lookupSetter__'', JFunction ''Object.prototype.__lookupSetter__'')]"

definition plain_object_inherits :: "json \<Rightarrow> string \<Rightarrow> json" where
  "plain_object_inherits v k =
     (case v of
        JObj kvs \<Rightarrow> (case map_of Object_prototype k of Some m \<Rightarrow> m | None \<Rightarrow> JUndefined)
      | _ \<Rightarrow> JUndefined)"

definition table_parse :: "(string \<times> json) list \<Rightarrow> json \<Rightarrow> json option" where
  "table_parse tbl v = (case v of JStr t \<Rightarrow> map_of tbl t | _ \<Rightarrow> None)"

definition table_stringify :: "(string \<times> json) list \<Rightarrow> json \<Rightarrow> json" where
  "table_stringify tbl v =
     (if v = JUndefined then JUndefined
      else (case map_of (map (\<lambda>(t, x). (x, t)) tbl) v of Some t \<Rightarrow> JStr t | None \<Rightarrow> JStr ''?''))"

definition table_runtime :: "(string \<times> json) list \<Rightarrow> builtins" where
  "table_runtime tbl =
     \<lparr>JSON_parse = table_parse tbl, JSON_stringify = table_stringify tbl, ToNumber = (\<lambda>v. None),
      inherited = plain_object_inherits\<rparr>"

text \<open>
  The frames of the concrete runs: the texts on the wire and what they decode to.
\<close>

definition demo_frames :: "(string \<times> json) list" where
  "demo_frames =
     [(''EST'', JObj [(''event'', JStr ''realtime:connection_established''),
                      (''data'', JStr ''EST_DATA'')]),
      (''EST_DATA'', JObj [(''socket_id'', JStr ''123.456''), (''activity_timeout'', JNum (Fin 5))]),
      (''PONG'', JObj [(''event'', JStr ''realtime:pong''), (''data'', JStr ''{}'')]),
      (''{}'', JObj []),
      (''ERR'', JObj [(''event'', JStr ''realtime:error''), (''data'', JStr ''ERR_DATA'')]),
      (''ERR_DATA'', JObj [(''code'', JNum (Fin 4001)), (''message'', JStr ''App not found'')]),
      (''SELF'', JObj [(''user_id'', JStr ''1''), (''user_info'', JObj [(''name'', JStr ''Alice'')])]),
      (''SUB_OK'', JObj [(''event'', JStr ''realtime:subscription_succeeded''),
                         (''channel'', JStr ''presence-room''), (''data'', JStr ''SNAPSHOT'')]),
      (''SUB_ERR'', JObj [(''event'', JStr ''realtime:subscription_error''),
                          (''channel'', JStr ''presence-room''), (''data'', JStr ''{}'')]),
      (''SNAPSHOT'', JObj [(''presence'',
          JObj [(''count'', JNum (Fin 1)), (''ids'', JArr [JStr ''1'']),
                (''hash'', JObj [(''1'', JObj [(''name'', JStr ''Alice'')])])])])]"

definition demo_runtime :: builtins where
  "demo_runtime = table_runtime demo_frames"

text \<open>A client that has connected and received \<open>connection_established\<close> on socket 1.\<close>

definition connected_client :: sys where
  "connected_client =
     run demo_runtime [UserConnect, WsOpen 1, WsMessage 1 ''EST''] (new_Apinator (JStr ''/auth'') False)"



text \<open>
  The member list of a snapshot, as \<open>handleSubscribed\<close> reads it, and the invariant of
  the derived count: on every channel object, the count is the length of the ID sequence.
\<close>

definition snapshot_ids :: "json \<Rightarrow> string list" where
  "snapshot_ids d =
     (if isPresenceData d then string_ids (array_elems (js_get (js_get d ''presence'') ''ids''))
      else [])"

definition snapshot_hash :: "json \<Rightarrow> json" where
  "snapshot_hash d =
     (if isPresenceData d then js_get (js_get d ''presence'') ''hash'' else JObj [])"

definition count_ok :: "channel \<Rightarrow> bool" where
  "count_ok ch = (memberCount ch = JNum (Fin (of_nat (length (ids (presence ch))))))"

definition counts_ok :: "sys \<Rightarrow> bool" where
  "counts_ok s = (\<forall>cid ch. heap s cid = Some ch \<longrightarrow> count_ok ch)"

text \<open>
  Two snapshots: members 1 and 2 (with a \<open>count\<close> that is wrong and an entry of
  \<open>ids\<close> that is not a string), then member 3 alone.  And a client that has
  registered \<open>presence-room\<close> (object 0) before connecting.
\<close>

definition snapshot_AB :: json where
  "snapshot_AB =
     JObj [(''presence'',
       JObj [(''count'', JNum (Fin 7)), (''ids'', JArr [JStr ''1'', JNum (Fin 5), JStr ''2'']),
             (''hash'', JObj [(''1'', JObj [(''name'', JStr ''Alice'')]),
                              (''2'', JObj [(''name'', JStr ''Bob'')])])])]"

definition snapshot_C :: json where
  "snapshot_C =
     JObj [(''presence'',
       JObj [(''count'', JNum (Fin 1)), (''ids'', JArr [JStr ''3'']),
             (''hash'', JObj [(''3'', JObj [(''name'', JStr ''Carol'')])])])]"

definition room_client :: sys where
  "room_client = run demo_runtime [UserSubscribe ''presence-room''] (new_Apinator (JStr ''/auth'') False)"

definition room_AB :: sys where
  "room_AB = PresenceChannel_handleSubscribed demo_runtime 0 snapshot_AB None room_client"

text \<open>
  A frame sent to a socket is a subscribe frame if its event is \<open>realtime:subscribe\<close>.
\<close>

fun is_subscribe_send :: "effect \<Rightarrow> bool" where
  "is_subscribe_send (WsSend w m) = (js_get m ''event'' = JStr ''realtime:subscribe'')"
| "is_subscribe_send e = False"

text \<open>
  Channel data that decodes to an object with a non-empty string \<open>user_id\<close> and an
  object, not an array, as \<open>user_info\<close>.
\<close>

definition decodes_to_identity :: "builtins \<Rightarrow> json \<Rightarrow> bool" where
  "decodes_to_identity B channel_data =
     (case JSON_parse B channel_data of
        None \<Rightarrow> False
      | Some parsed \<Rightarrow>
          (case js_get parsed ''user_id'' of
             JStr uid \<Rightarrow> uid \<noteq> [] \<and> (case js_get parsed ''user_info'' of JObj kvs \<Rightarrow> True | _ \<Rightarrow> False)
           | _ \<Rightarrow> False))"

text \<open>The callbacks bound to an event on a channel.\<close>

definition listeners :: "channel \<Rightarrow> string \<Rightarrow> callback list" where
  "listeners ch event = (case map_of (bindings ch) event of None \<Rightarrow> [] | Some cbs \<Rightarrow> cbs)"

text \<open>
  The connected client after \<open>subscribe("presence-room")\<close>: the channel is object 0, a
  user callback 7 listens for subscription errors on it, and the authentication call 1
  is in flight.  And the same client after \<open>unsubscribe("presence-room")\<close>, with the call
  still in flight.
\<close>

definition awaiting_auth :: sys where
  "awaiting_auth =
     run demo_runtime [UserSubscribe ''presence-room'', ChanBind 0 ''realtime:subscription_error'' 7]
       connected_client"

definition unsubscribed_in_flight :: sys where
  "unsubscribed_in_flight = step demo_runtime (UserUnsubscribe ''presence-room'') awaiting_auth"

text \<open>
  Two clients whose caller has called \<open>connect\<close>, \<open>disconnect\<close>, \<open>connect\<close> before
  the close notification of the first socket arrived; \<open>handleDisconnect\<close> then ran for
  socket 1 and set \<open>this.ws = null\<close>, while socket 2 was the one just opened.  In the
  first client the server goes on to establish the session on socket 2.  In the second
  the caller disconnects and connects once more: socket 4 is held and established, and
  socket 2 is still connecting.
\<close>

definition unheld_socket_client :: sys where
  "unheld_socket_client =
     run demo_runtime
       [UserConnect, UserDisconnect, UserConnect, WsClose 1, WsOpen 2, WsMessage 2 ''EST'']
       (new_Apinator (JStr ''/auth'') False)"

definition second_socket_client :: sys where
  "second_socket_client =
     run demo_runtime
       [UserConnect, UserDisconnect, UserConnect, WsClose 1, UserDisconnect, UserConnect,
        WsOpen 4, WsMessage 4 ''EST'']
       (new_Apinator (JStr ''/auth'') False)"

fun is_close_call :: "effect \<Rightarrow> bool" where
  "is_close_call (WsCloseCall w c) = True"
| "is_close_call e = False"

text \<open>
  Two more snapshots: member 3 and a member whose ID is \<open>constructor\<close>, the hash
  having an entry for 3 only; and a member whose ID is \<open>toString\<close>, with its entry.
\<close>

definition snapshot_C_constructor :: json where
  "snapshot_C_constructor =
     JObj [(''presence'',
       JObj [(''count'', JNum (Fin 2)), (''ids'', JArr [JStr ''3'', JStr ''constructor'']),
             (''hash'', JObj [(''3'', JObj [(''name'', JStr ''Carol'')])])])]"

definition snapshot_T :: json where
  "snapshot_T =
     JObj [(''presence'',
       JObj [(''count'', JNum (Fin 1)), (''ids'', JArr [JStr ''toString'']),
             (''hash'', JObj [(''toString'', JObj [(''name'', JStr ''Tess'')])])])]"

definition room_T :: sys where
  "room_T = PresenceChannel_handleSubscribed demo_runtime 0 snapshot_T None room_client"

text \<open>
  The connected client after its activity timer has fired: the ping has been sent and the
  30-second grace timer is running.
\<close>

definition pinged_client :: sys where
  "pinged_client = step demo_runtime (TimerFires 2) connected_client"

section \<open>Properties\<close>

subsection \<open>Frame lemmas: what the client code leaves alone\<close>

lemma fold_view:
  assumes "\<And>x t. x \<in> set xs \<Longrightarrow> conn_view (f x t) = conn_view t"
  shows "conn_view (fold f xs s) = conn_view s"
  using assms by (induction xs arbitrary: s) auto

lemma view_emitEffect: "\<not> conn_effect e \<Longrightarrow> conn_view (emitEffect e s) = conn_view s"
  by (simp add: conn_view_def emitEffect_def)

lemma view_send: "conn_view (send msg s) = conn_view s"
  by (simp add: send_def view_emitEffect split: option.splits)

lemma view_upd_chan: "conn_view (upd_chan cid f s) = conn_view s"
  by (simp add: upd_chan_def conn_view_def split: option.splits)

lemma view_run_callback: "conn_view (run_callback B d cb s) = conn_view s"
  by (cases cb) (simp_all add: view_emitEffect view_send)

lemma view_emit: "conn_view (emit B cid e d s) = conn_view s"
  by (simp add: emit_def fold_view view_run_callback split: option.splits)

lemma view_Channel_handleSubscribed: "conn_view (Channel_handleSubscribed B cid d s) = conn_view s"
  by (simp add: Channel_handleSubscribed_def view_emit view_upd_chan)

lemma view_Channel_handleError: "conn_view (Channel_handleError B cid d s) = conn_view s"
  by (simp add: Channel_handleError_def view_emit view_upd_chan)

lemma view_Channel_handleEvent: "conn_view (Channel_handleEvent B cid e d s) = conn_view s"
  by (simp add: Channel_handleEvent_def view_emit)

lemma view_clearPresence: "conn_view (PresenceChannel_clearPresenceState cid s) = conn_view s"
  by (simp add: PresenceChannel_clearPresenceState_def view_upd_chan)

lemma view_Presence_handleSubscribed:
  "conn_view (PresenceChannel_handleSubscribed B cid d selfo s) = conn_view s"
  by (simp add: PresenceChannel_handleSubscribed_def Let_def view_Channel_handleSubscribed
      view_emitEffect view_upd_chan)

lemma view_handleMemberAdded: "conn_view (PresenceChannel_handleMemberAdded B cid i s) = conn_view s"
  by (simp add: PresenceChannel_handleMemberAdded_def view_emit view_upd_chan)

lemma view_handleMemberRemoved: "conn_view (PresenceChannel_handleMemberRemoved B cid i s) = conn_view s"
  by (simp add: PresenceChannel_handleMemberRemoved_def view_emit view_upd_chan)

lemma view_pending: "conn_view (s\<lparr>pendingPresenceSelf := p\<rparr>) = conn_view s"
  by (simp add: conn_view_def)

lemma view_Apinator_clearPresenceState: "conn_view (Apinator_clearPresenceState s) = conn_view s"
  by (simp add: Apinator_clearPresenceState_def fold_view view_clearPresence view_pending)

lemma view_sendSubscribe: "conn_view (sendSubscribe B cid s) = conn_view s"
  by (simp add: sendSubscribe_def Let_def view_Channel_handleError view_send view_emitEffect
      split: option.splits) (simp add: conn_view_def)

lemma view_sendSubscribe_resume: "conn_view (sendSubscribe_resume B r res s) = conn_view s"
  by (simp add: sendSubscribe_resume_def Let_def view_Channel_handleError view_send
      split: option.splits auth_result.splits) (simp add: conn_view_def)

lemma view_fire_global: "conn_view (fire_global cbs d s) = conn_view s"
  unfolding fire_global_def by (rule fold_view) (simp add: view_emitEffect)

lemma view_route: "conn_view (route B msg c cid s) = conn_view s"
  by (simp add: route_def Let_def view_Presence_handleSubscribed view_Channel_handleSubscribed
      view_pending view_clearPresence view_Channel_handleError view_emitEffect
      view_handleMemberAdded view_handleMemberRemoved view_Channel_handleEvent split: json.splits)

lemma view_Apinator_handleMessage: "conn_view (Apinator_handleMessage B msg s) = conn_view s"
  by (simp add: Apinator_handleMessage_def Let_def view_route view_fire_global
      split: json.splits option.splits)

lemma view_Apinator_handleStateChange:
  "conn_view (Apinator_handleStateChange B p c s) = conn_view s"
  by (simp add: Apinator_handleStateChange_def Let_def view_fire_global fold_view
      view_sendSubscribe view_Apinator_clearPresenceState split: option.splits)


subsection \<open>The connection's own functions\<close>

lemma view_setState:
  "conn_view (setState B st s) =
   conn_view (s\<lparr>state := st,
                effects := effects s @ (if state s \<noteq> st then [OnStateChange (state s) st] else [])\<rparr>)"
  by (simp add: setState_def Let_def view_Apinator_handleStateChange)
     (simp add: conn_view_def emitEffect_def)

lemma timers_clearTimers:
  "timers (clearTimers s) =
   filter (\<lambda>(h, cb, d). Some h \<noteq> reconnectTimer s \<and> Some h \<noteq> activityTimer s) (timers s)"
  by (auto simp: clearTimers_def clearTimeout_def Let_def AList.delete_eq
      split: option.splits intro!: filter_cong)

lemma clearTimers_fields:
  "reconnectTimer (clearTimers s) = None" "activityTimer (clearTimers s) = None"
  "ws (clearTimers s) = ws s" "state (clearTimers s) = state s"
  "reconnectAttempts (clearTimers s) = reconnectAttempts s" "socketId (clearTimers s) = socketId s"
  "sockets (clearTimers s) = sockets s" "nextHandle (clearTimers s) = nextHandle s"
  "socketCtorThrows (clearTimers s) = socketCtorThrows s" "effects (clearTimers s) = effects s"
  by (simp_all add: clearTimers_def clearTimeout_def Let_def split: option.splits)

lemma owned_clearTimers: "timers_owned s \<Longrightarrow> timers (clearTimers s) = []"
  unfolding timers_clearTimers timers_owned_def list_all_iff filter_empty_conv
  by (auto split: if_splits)


lemma setState_fields:
  "state (setState B st s) = st" "ws (setState B st s) = ws s"
  "reconnectAttempts (setState B st s) = reconnectAttempts s"
  "reconnectTimer (setState B st s) = reconnectTimer s"
  "activityTimer (setState B st s) = activityTimer s"
  "socketId (setState B st s) = socketId s" "sockets (setState B st s) = sockets s"
  "timers (setState B st s) = timers s" "nextHandle (setState B st s) = nextHandle s"
  "socketCtorThrows (setState B st s) = socketCtorThrows s"
  using view_setState[of B st s] by (simp_all add: conn_view_def)

lemma view_onMessage:
  "conn_view (onMessage B msg s) = conn_view (s\<lparr>effects := effects s @ [OnMessage msg]\<rparr>)"
  by (simp add: onMessage_def view_Apinator_handleMessage) (simp add: conn_view_def emitEffect_def)

lemma onMessage_fields:
  "state (onMessage B msg s) = state s" "ws (onMessage B msg s) = ws s"
  "reconnectAttempts (onMessage B msg s) = reconnectAttempts s"
  "reconnectTimer (onMessage B msg s) = reconnectTimer s"
  "activityTimer (onMessage B msg s) = activityTimer s"
  "socketId (onMessage B msg s) = socketId s" "sockets (onMessage B msg s) = sockets s"
  "timers (onMessage B msg s) = timers s" "nextHandle (onMessage B msg s) = nextHandle s"
  "socketCtorThrows (onMessage B msg s) = socketCtorThrows s"
  using view_onMessage[of B msg s] by (simp_all add: conn_view_def)

lemma owned_view: "conn_view t = conn_view s \<Longrightarrow> timers_owned t = timers_owned s"
  by (simp add: conn_view_def timers_owned_def)

lemma owned_setState: "timers_owned (setState B st s) = timers_owned s"
  by (simp add: timers_owned_def setState_fields)

lemma owned_onMessage: "timers_owned (onMessage B msg s) = timers_owned s"
  by (simp add: timers_owned_def onMessage_fields)

lemma owned_no_timers: "timers s = [] \<Longrightarrow> timers_owned s"
  by (simp add: timers_owned_def)

lemma owned_resetActivityTimer:
  "timers_owned s \<Longrightarrow> timers_owned (resetActivityTimer t s)"
  by (auto simp: timers_owned_def resetActivityTimer_def setTimeout_def clearTimeout_def Let_def
      list_all_iff AList.delete_eq split: option.splits if_splits)

lemma handleDisconnect_retry:
  assumes "timers_owned s" "state s \<noteq> Disconnected" "reconnectAttempts s < 6"
  shows "state (handleDisconnect B s) = Connecting"
    and "timers (handleDisconnect B s) =
           [(nextHandle s, CallConnect, Millis (min (1000 * 2 ^ reconnectAttempts s) 30000))]"
    and "reconnectTimer (handleDisconnect B s) = Some (nextHandle s)"
    and "activityTimer (handleDisconnect B s) = None"
    and "reconnectAttempts (handleDisconnect B s) = Suc (reconnectAttempts s)"
    and "ws (handleDisconnect B s) = None"
    and "nextHandle (handleDisconnect B s) = Suc (nextHandle s)"
proof -
  have o: "timers_owned (s\<lparr>ws := None\<rparr>)" using assms(1) by (simp add: timers_owned_def)
  have t: "timers (clearTimers (s\<lparr>ws := None\<rparr>)) = []" by (rule owned_clearTimers[OF o])
  show "state (handleDisconnect B s) = Connecting"
    and "timers (handleDisconnect B s) =
           [(nextHandle s, CallConnect, Millis (min (1000 * 2 ^ reconnectAttempts s) 30000))]"
    and "reconnectTimer (handleDisconnect B s) = Some (nextHandle s)"
    and "activityTimer (handleDisconnect B s) = None"
    and "reconnectAttempts (handleDisconnect B s) = Suc (reconnectAttempts s)"
    and "ws (handleDisconnect B s) = None"
    and "nextHandle (handleDisconnect B s) = Suc (nextHandle s)"
    using assms(2,3) t
    by (simp_all add: handleDisconnect_def Let_def setTimeout_def setState_fields clearTimers_fields)
qed

lemma handleDisconnect_exhausted:
  assumes "timers_owned s" "state s \<noteq> Disconnected" "\<not> reconnectAttempts s < 6"
  shows "state (handleDisconnect B s) = Unavailable"
    and "timers (handleDisconnect B s) = []"
    and "reconnectTimer (handleDisconnect B s) = None"
    and "activityTimer (handleDisconnect B s) = None"
    and "reconnectAttempts (handleDisconnect B s) = reconnectAttempts s"
    and "ws (handleDisconnect B s) = None"
    and "nextHandle (handleDisconnect B s) = nextHandle s"
proof -
  have o: "timers_owned (s\<lparr>ws := None\<rparr>)" using assms(1) by (simp add: timers_owned_def)
  have t: "timers (clearTimers (s\<lparr>ws := None\<rparr>)) = []" by (rule owned_clearTimers[OF o])
  show "state (handleDisconnect B s) = Unavailable"
    and "timers (handleDisconnect B s) = []"
    and "reconnectTimer (handleDisconnect B s) = None"
    and "activityTimer (handleDisconnect B s) = None"
    and "reconnectAttempts (handleDisconnect B s) = reconnectAttempts s"
    and "ws (handleDisconnect B s) = None"
    and "nextHandle (handleDisconnect B s) = nextHandle s"
    using assms(2,3) t
    by (simp_all add: handleDisconnect_def Let_def setState_fields clearTimers_fields)
qed

lemma handleDisconnect_ignored:
  assumes "timers_owned s" "state s = Disconnected"
  shows "state (handleDisconnect B s) = Disconnected"
    and "timers (handleDisconnect B s) = []"
    and "nextHandle (handleDisconnect B s) = nextHandle s"
    and "effects (handleDisconnect B s) = effects s"
proof -
  have o: "timers_owned (s\<lparr>ws := None\<rparr>)" using assms(1) by (simp add: timers_owned_def)
  have t: "timers (clearTimers (s\<lparr>ws := None\<rparr>)) = []" by (rule owned_clearTimers[OF o])
  show "state (handleDisconnect B s) = Disconnected"
    and "timers (handleDisconnect B s) = []"
    and "nextHandle (handleDisconnect B s) = nextHandle s"
    and "effects (handleDisconnect B s) = effects s"
    using assms(2) t
    by (simp_all add: handleDisconnect_def Let_def clearTimers_fields)
qed

lemma owned_handleDisconnect: "timers_owned s \<Longrightarrow> timers_owned (handleDisconnect B s)"
proof -
  assume o: "timers_owned s"
  consider "state s = Disconnected" | "state s \<noteq> Disconnected" "reconnectAttempts s < 6"
    | "state s \<noteq> Disconnected" "\<not> reconnectAttempts s < 6" by blast
  then show ?thesis
  proof cases
    case 1 then show ?thesis using handleDisconnect_ignored[OF o] by (simp add: owned_no_timers)
  next
    case 2 then show ?thesis using handleDisconnect_retry[OF o, of B]
      by (simp add: timers_owned_def)
  next
    case 3 then show ?thesis using handleDisconnect_exhausted[OF o, of B]
      by (simp add: owned_no_timers)
  qed
qed


lemma disconnect_fields:
  assumes "timers_owned s"
  shows "state (disconnect B s) = Disconnected" and "timers (disconnect B s) = []"
    and "reconnectTimer (disconnect B s) = None" and "activityTimer (disconnect B s) = None"
    and "ws (disconnect B s) = None" and "nextHandle (disconnect B s) = nextHandle s"
    and "socketId (disconnect B s) = socketId s"
    and "reconnectAttempts (disconnect B s) = reconnectAttempts s"
  using owned_clearTimers[OF assms]
  by (simp_all add: disconnect_def Let_def ws_close_def emitEffect_def setState_fields
      clearTimers_fields split: option.splits)

lemma owned_disconnect: "timers_owned s \<Longrightarrow> timers_owned (disconnect B s)"
  by (simp add: owned_no_timers disconnect_fields)

lemma owned_connect: "timers_owned s \<Longrightarrow> timers_owned (connect B s)"
  by (auto simp: connect_def Let_def owned_handleDisconnect owned_setState emitEffect_def
      intro: owned_handleDisconnect)
     (simp add: timers_owned_def setState_fields)

lemma owned_socketId: "timers_owned (s\<lparr>socketId := x\<rparr>) = timers_owned s"
  by (simp add: timers_owned_def)

lemma owned_Connection_handleMessage:
  "timers_owned s \<Longrightarrow> Connection_handleMessage B msg s = Inr t \<Longrightarrow> timers_owned t"
  by (auto simp: Connection_handleMessage_def Let_def owned_onMessage owned_disconnect
      owned_resetActivityTimer owned_setState owned_socketId
      split: if_splits option.splits)

lemma owned_fire_timer: "timers_owned s \<Longrightarrow> timers_owned (fire_timer B h s)"
proof (cases "map_of (timers s) h")
  case None
  assume "timers_owned s" with None show ?thesis by (simp add: fire_timer_def)
next
  case (Some p)
  assume o: "timers_owned s"
  obtain cb d where p: "p = (cb, d)" by (cases p)
  let ?s1 = "s\<lparr>timers := AList.delete h (timers s)\<rparr>"
  have mem: "(h, cb, d) \<in> set (timers s)" using Some p by (auto dest: map_of_SomeD)
  have o1: "timers_owned ?s1"
    using o by (auto simp: timers_owned_def list_all_iff AList.delete_eq)
  show ?thesis
  proof (cases cb)
    case CallConnect
    then show ?thesis using Some p o1 by (simp add: fire_timer_def owned_connect)
  next
    case SendPing
    then have a: "activityTimer s = Some h" using o mem by (auto simp: timers_owned_def list_all_iff)
    have "timers_owned ((setTimeout ForceClose (Millis 30000) (send ping_frame ?s1))
             \<lparr>activityTimer := Some (nextHandle (send ping_frame ?s1))\<rparr>)"
      using o a view_send[of ping_frame ?s1]
      by (auto simp: timers_owned_def list_all_iff AList.delete_eq setTimeout_def conn_view_def)
    then show ?thesis using Some p SendPing by (simp add: fire_timer_def Let_def)
  next
    case ForceClose
    have "timers_owned (ws_close w None ?s1)" for w
      using o1 by (simp add: timers_owned_def ws_close_def emitEffect_def)
    then show ?thesis using Some p ForceClose o1
      by (simp add: fire_timer_def Let_def split: option.splits)
  qed
qed

lemma view_Channel_trigger: "Channel_trigger B cid e d s = Inr t \<Longrightarrow> conn_view t = conn_view s"
  by (auto simp: Channel_trigger_def view_emit split: option.splits if_splits)

lemma view_Apinator_trigger: "Apinator_trigger B n e d s = Inr t \<Longrightarrow> conn_view t = conn_view s"
  by (auto simp: Apinator_trigger_def split: option.splits if_splits dest: view_Channel_trigger)

lemma view_updates:
  "conn_view (s\<lparr>channels := c\<rparr>) = conn_view s"
  "conn_view (s\<lparr>heap := hp\<rparr>) = conn_view s"
  "conn_view (s\<lparr>nextObj := n\<rparr>) = conn_view s"
  "conn_view (s\<lparr>inflight := i\<rparr>) = conn_view s"
  "conn_view (s\<lparr>globalBindings := g\<rparr>) = conn_view s"
  by (simp_all add: conn_view_def)

lemma view_subscribe: "conn_view (snd (subscribe B n s)) = conn_view s"
  by (simp add: subscribe_def Let_def view_sendSubscribe Channel_bind_def view_upd_chan
      view_updates split: option.splits)

lemma view_unsubscribe: "conn_view (unsubscribe B n s) = conn_view s"
  by (simp add: unsubscribe_def Let_def Channel_unbindAll_def view_upd_chan view_clearPresence
      view_pending view_send view_updates split: option.splits)

lemma view_client_step: "\<not> conn_event e \<Longrightarrow> conn_view (step B e s) = conn_view s"
proof (cases e)
  case (UserSubscribe n) then show ?thesis by (simp add: view_subscribe)
next
  case (UserUnsubscribe n) then show ?thesis by (simp add: view_unsubscribe)
next
  case (UserBind ev k) then show ?thesis by (simp add: Apinator_bind_def conn_view_def Let_def)
next
  case (UserUnbind ev ko) then show ?thesis
    by (simp add: Apinator_unbind_def conn_view_def split: option.splits)
next
  case (UserTrigger n ev d) then show ?thesis
    by (auto simp: or_unchanged_def split: sum.splits dest: view_Apinator_trigger)
next
  case (ChanBind cid ev k) then show ?thesis by (simp add: Channel_bind_def view_upd_chan)
next
  case (ChanUnbind cid ev ko) then show ?thesis by (simp add: Channel_unbind_def view_upd_chan)
next
  case (ChanUnbindAll cid) then show ?thesis by (simp add: Channel_unbindAll_def view_upd_chan)
next
  case (ChanTrigger cid ev d) then show ?thesis
    by (auto simp: or_unchanged_def split: sum.splits dest: view_Channel_trigger)
next
  case (AuthSettles r res) then show ?thesis by (simp add: view_sendSubscribe_resume)
qed simp_all

lemma owned_step: "timers_owned s \<Longrightarrow> timers_owned (step B e s)"
proof (cases "conn_event e")
  case False
  assume "timers_owned s"
  then show ?thesis using owned_view[OF view_client_step[OF False]] by simp
next
  case True
  assume o: "timers_owned s"
  from True show ?thesis
  proof (cases e)
    case UserConnect then show ?thesis using o by (simp add: owned_connect)
  next
    case UserDisconnect then show ?thesis using o by (simp add: owned_disconnect)
  next
    case (WsOpen w)
    then show ?thesis using o by (simp add: ws_onopen_def timers_owned_def)
  next
    case (WsMessage w raw)
    then show ?thesis using o
      by (auto simp: or_unchanged_def ws_onmessage_def split: sum.splits option.splits
          dest: owned_Connection_handleMessage)
  next
    case (WsClose w)
    have "timers_owned (s\<lparr>sockets := x\<rparr>)" for x using o by (simp add: timers_owned_def)
    with WsClose show ?thesis using o
      by (simp add: ws_onclose_def owned_handleDisconnect)
  next
    case (TimerFires h) then show ?thesis using o by (simp add: owned_fire_timer)
  qed simp_all
qed

lemma owned_run: "timers_owned s \<Longrightarrow> timers_owned (run B evs s)"
  unfolding run_def by (induction evs arbitrary: s) (simp_all add: owned_step)

lemma owned_new: "timers_owned (new_Apinator ep ct)"
  by (simp add: new_Apinator_def timers_owned_def)

lemma owned_reachable: "timers_owned (run B evs (new_Apinator ep ct))"
  by (simp add: owned_run owned_new)

subsection \<open>Evaluating the concrete runs\<close>

lemmas run_simps = run_def
lemmas runtime_simps = demo_runtime_def table_runtime_def table_parse_def table_stringify_def demo_frames_def
  plain_object_inherits_def Object_prototype_def
lemmas conn_simps = connect_def disconnect_def handleDisconnect_def setState_def clearTimers_def
  clearTimeout_def setTimeout_def resetActivityTimer_def ws_close_def ws_onopen_def ws_onclose_def
  ws_onmessage_def Connection_handleMessage_def onMessage_def fire_timer_def send_def emitEffect_def
  or_unchanged_def nullish_def js_between_def js_number_def ping_frame_def
lemmas client_simps = Apinator_handleStateChange_def Apinator_handleMessage_def
  Apinator_clearPresenceState_def fire_global_def route_def parseData_def sendSubscribe_def
  sendSubscribe_resume_def subscribe_def unsubscribe_def is_presence_def new_Channel_def
  Channel_bind_def Channel_unbindAll_def Channel_handleError_def Channel_handleSubscribed_def
  Channel_handleEvent_def PresenceChannel_clearPresenceState_def PresenceChannel_handleSubscribed_def
  upd_chan_def emit_def bind_state_def set_add_def starts_with_def auth_error_def subscribe_frame_def
  parsePresenceSelf_def clearPresenceState_state_def handleSubscribed_state_def isPresenceData_def

lemma connected_client_eq:
  "connected_client =
     \<lparr>ws = Some 1, state = Connected, reconnectAttempts = 0, reconnectTimer = None,
      activityTimer = Some 2, socketId = JStr ''123.456'', channels = [],
      pendingPresenceSelf = Map.empty, globalBindings = [], authEndpoint = JStr ''/auth'',
      heap = Map.empty, nextObj = 0, sockets = [1 \<mapsto> OPEN],
      timers = [(2, SendPing, SecondsAsMillis (JNum (Fin 5)))], nextHandle = 3,
      inflight = Map.empty, socketCtorThrows = False,
      effects = [OnStateChange Initialized Connecting, WsNew 1, OnStateChange Connecting Connected,
                 OnMessage (JObj [(''event'', JStr ''realtime:connection_established''),
                                  (''data'', JStr ''EST_DATA'')])]\<rparr>"
  by (simp add: connected_client_def new_Apinator_def run_simps runtime_simps conn_simps
      client_simps Let_def)

subsection \<open>Reconnection after an unexpected close\<close>




text \<open>
  What the scheduled attempt does when its timer fires: the state is still
  \<open>connecting\<close>, which \<open>handleDisconnect\<close> set, so \<open>connect\<close> returns at its
  first test and no socket is opened.
\<close>

lemma reconnect_timer_finds_connecting:
  assumes "timers_owned s" "state s \<noteq> Disconnected" "reconnectAttempts s < 6"
  shows "fire_timer B (nextHandle s) (handleDisconnect B s) = (handleDisconnect B s)\<lparr>timers := []\<rparr>"
  using handleDisconnect_retry[OF assms, of B]
  by (simp add: fire_timer_def connect_def Let_def)

subsection \<open>The connection identifier\<close>

lemma socketId_disconnect: "socketId (disconnect B s) = socketId s"
  by (simp add: disconnect_def Let_def ws_close_def emitEffect_def setState_fields
      clearTimers_fields split: option.splits)

lemma socketId_handleDisconnect: "socketId (handleDisconnect B s) = socketId s"
  by (simp add: handleDisconnect_def Let_def setTimeout_def setState_fields clearTimers_fields)

lemma socketId_connect: "socketId (connect B s) = socketId s"
  by (simp add: connect_def Let_def emitEffect_def setState_fields socketId_handleDisconnect)

lemma socketId_fire_timer: "socketId (fire_timer B h s) = socketId s"
proof -
  have "socketId (send m t) = socketId t" for m t
    using view_send[of m t] by (simp add: conn_view_def)
  then show ?thesis
    by (simp add: fire_timer_def Let_def socketId_connect setTimeout_def ws_close_def
        emitEffect_def split: option.splits timer_callback.splits prod.splits)
qed

lemma socketId_ws_onmessage:
  "\<not> establishes B raw \<Longrightarrow> ws_onmessage B raw s = Inr t \<Longrightarrow> socketId t = socketId s"
  by (auto simp: establishes_def ws_onmessage_def Connection_handleMessage_def
      onMessage_fields socketId_disconnect split: option.splits if_splits)

lemma socketId_step: "\<not> establishing B e \<Longrightarrow> socketId (step B e s) = socketId s"
proof (cases "conn_event e")
  case False
  then show ?thesis using view_client_step[OF False, of B s] by (simp add: conn_view_def)
next
  case True
  assume ne: "\<not> establishing B e"
  from True show ?thesis
  proof (cases e)
    case UserConnect then show ?thesis by (simp add: socketId_connect)
  next
    case UserDisconnect then show ?thesis by (simp add: socketId_disconnect)
  next
    case (WsOpen w) then show ?thesis by (simp add: ws_onopen_def)
  next
    case (WsMessage w raw)
    then show ?thesis using ne
      by (auto simp: or_unchanged_def split: sum.splits dest: socketId_ws_onmessage)
  next
    case (WsClose w) then show ?thesis by (simp add: ws_onclose_def socketId_handleDisconnect)
  next
    case (TimerFires h) then show ?thesis by (simp add: socketId_fire_timer)
  qed simp_all
qed

lemma socketId_run:
  "list_all (\<lambda>e. \<not> establishing B e) evs \<Longrightarrow> socketId (run B evs s) = socketId s"
  unfolding run_def by (induction evs arbitrary: s) (simp_all add: socketId_step)

text \<open>
  C10.  The connection identifier is \<open>null\<close> in a new client and is assigned only when a
  \<open>connection_established\<close> frame is handled: \<open>disconnect()\<close>, an unexpected close
  (also the one that ends in \<open>unavailable\<close>) and every run of events without such a
  frame leave it as it was, and handling such a frame stores the \<open>socket_id\<close> of its
  payload.
\<close>

theorem socketId_never_cleared:
  "socketId (new_Apinator ep ct) = JNull
   \<and> socketId (disconnect B s) = socketId s
   \<and> socketId (handleDisconnect B s) = socketId s
   \<and> (list_all (\<lambda>e. \<not> establishing B e) evs \<longrightarrow> socketId (run B evs s) = socketId s)
   \<and> (sockets s w = Some OPEN \<and> JSON_parse B (JStr raw) = Some msg \<and> \<not> nullish msg
        \<and> js_get msg ''event'' = JStr ''realtime:connection_established''
        \<and> JSON_parse B (js_get msg ''data'') = Some d \<and> \<not> nullish d
      \<longrightarrow> socketId (step B (WsMessage w raw) s) = js_get d ''socket_id'')"
proof -
  have "socketId (resetActivityTimer t u) = socketId u" for t u
    by (simp add: resetActivityTimer_def setTimeout_def clearTimeout_def Let_def split: option.splits)
  then show ?thesis
    by (auto simp: socketId_disconnect socketId_handleDisconnect socketId_run new_Apinator_def
        or_unchanged_def ws_onmessage_def Connection_handleMessage_def Let_def onMessage_fields
        setState_fields)
qed

theorem socketId_never_cleared_witness:
  "list_all (\<lambda>e. \<not> establishing demo_runtime e)
     [WsMessage 1 ''PONG'', WsClose 1, TimerFires 3, UserDisconnect]
   \<and> socketId (run demo_runtime [WsMessage 1 ''PONG'', WsClose 1, TimerFires 3, UserDisconnect]
                connected_client) = JStr ''123.456''"
proof -
  have h: "list_all (\<lambda>e. \<not> establishing demo_runtime e)
     [WsMessage 1 ''PONG'', WsClose 1, TimerFires 3, UserDisconnect]"
    by (simp add: establishes_def runtime_simps)
  from socketId_never_cleared[of _ _ demo_runtime connected_client
      "[WsMessage 1 ''PONG'', WsClose 1, TimerFires 3, UserDisconnect]"] h
  show ?thesis by (simp add: connected_client_eq)
qed

subsection \<open>Fatal protocol errors\<close>

lemma fatal_frame_step:
  assumes "sockets s w = Some OPEN" "fatal_error_frame B raw"
  shows "step B (WsMessage w raw) s = disconnect B s"
proof -
  from assms(2) obtain msg d c where
    m: "JSON_parse B (JStr raw) = Some msg" "js_get msg ''event'' = JStr ''realtime:error''"
      "JSON_parse B (js_get msg ''data'') = Some d" "js_get d ''code'' = JNum (Fin c)"
      "4000 \<le> c" "c \<le> 4004"
    by (auto simp: fatal_error_frame_def split: option.splits json.splits jsnum.splits)
  have n: "\<not> nullish msg" "\<not> nullish d" using m(2,4) by (auto simp: nullish_def)
  have b: "js_between B (js_get d ''code'') 4000 4004"
    using m(4-6) by (simp add: js_between_def js_number_def)
  show ?thesis
    using assms(1) m(1-3) n b
    by (simp add: ws_onmessage_def Connection_handleMessage_def or_unchanged_def)
qed

lemma quiet_ws_onmessage:
  assumes "\<not> establishes B raw" "ws_onmessage B raw s = Inr t"
    "state s = Disconnected" "timers s = []"
  shows "state t = Disconnected \<and> timers t = [] \<and> nextHandle t = nextHandle s"
proof -
  have o: "timers_owned s" using assms(4) by (rule owned_no_timers)
  show ?thesis
    using assms disconnect_fields[OF o, of B]
    by (auto simp: establishes_def ws_onmessage_def Connection_handleMessage_def
        onMessage_fields split: option.splits if_splits)
qed

lemma quiet_step:
  assumes "state s = Disconnected" "timers s = []" "\<not> restarts B e"
  shows "state (step B e s) = Disconnected \<and> timers (step B e s) = []
         \<and> nextHandle (step B e s) = nextHandle s"
proof (cases "conn_event e")
  case False
  then show ?thesis using view_client_step[OF False, of B s] assms(1,2)
    by (simp add: conn_view_def)
next
  case True
  have o: "timers_owned s" using assms(2) by (rule owned_no_timers)
  from True show ?thesis
  proof (cases e)
    case UserConnect then show ?thesis using assms(3) by simp
  next
    case UserDisconnect then show ?thesis using disconnect_fields[OF o, of B] by simp
  next
    case (WsOpen w) then show ?thesis using assms(1,2) by (simp add: ws_onopen_def)
  next
    case (WsMessage w raw)
    then show ?thesis using assms
      by (auto simp: or_unchanged_def split: sum.splits dest: quiet_ws_onmessage)
  next
    case (WsClose w)
    let ?t = "s\<lparr>sockets := (sockets s)(w \<mapsto> CLOSED)\<rparr>"
    have "timers_owned ?t" "state ?t = Disconnected"
      using assms(1,2) by (simp_all add: timers_owned_def)
    from handleDisconnect_ignored[OF this, of B] WsClose assms(1,2)
    show ?thesis by (simp add: ws_onclose_def)
  next
    case (TimerFires h) then show ?thesis using assms(1,2) by (simp add: fire_timer_def)
  qed simp_all
qed

lemma quiet_run:
  "state s = Disconnected \<Longrightarrow> timers s = [] \<Longrightarrow> list_all (\<lambda>e. \<not> restarts B e) evs \<Longrightarrow>
   state (run B evs s) = Disconnected \<and> timers (run B evs s) = []
   \<and> nextHandle (run B evs s) = nextHandle s"
  unfolding run_def
proof (induction evs arbitrary: s)
  case Nil then show ?case by simp
next
  case (Cons e evs)
  from Cons.prems have q: "state (step B e s) = Disconnected \<and> timers (step B e s) = []
         \<and> nextHandle (step B e s) = nextHandle s"
    by (intro quiet_step) simp_all
  with Cons.IH[of "step B e s"] Cons.prems show ?case by simp
qed

lemma disconnect_closes:
  assumes "ws s = Some v"
  shows "last (effects (disconnect B s)) = WsCloseCall v (Some 1000)"
    and "sockets (disconnect B s) v \<noteq> Some OPEN" and "sockets (disconnect B s) v \<noteq> Some CONNECTING"
  using assms
  by (simp_all add: disconnect_def Let_def ws_close_def emitEffect_def setState_fields
      clearTimers_fields)

text \<open>
  What does hold in every run of a client from its construction: a \<open>realtime:error\<close>
  frame with a numeric code from 4000 to 4004 arriving on an open socket has exactly the
  effect of \<open>disconnect()\<close>.  The state is \<open>disconnected\<close>, no timer is pending, the
  connection holds no socket, and the socket it held, if it held one, has been told to
  close.  Afterwards, as long as nobody calls \<open>connect()\<close> and no
  \<open>connection_established\<close> frame arrives, the state stays \<open>disconnected\<close> and no
  timer or socket is created.
\<close>

lemma fatal_error_on_held_socket:
  fixes B evs ep ct w raw later
  defines "s \<equiv> run B evs (new_Apinator ep ct)"
  defines "s' \<equiv> step B (WsMessage w raw) s"
  assumes "sockets s w = Some OPEN" and "fatal_error_frame B raw"
  shows "s' = disconnect B s
       \<and> state s' = Disconnected \<and> timers s' = []
       \<and> reconnectTimer s' = None \<and> activityTimer s' = None \<and> ws s' = None
       \<and> (case ws s of
            None \<Rightarrow> True
          | Some v \<Rightarrow> last (effects s') = WsCloseCall v (Some 1000)
                    \<and> sockets s' v \<noteq> Some OPEN \<and> sockets s' v \<noteq> Some CONNECTING)
       \<and> (list_all (\<lambda>e. \<not> restarts B e) later \<longrightarrow>
            state (run B later s') = Disconnected \<and> timers (run B later s') = []
            \<and> nextHandle (run B later s') = nextHandle s')"
proof -
  have eq: "s' = disconnect B s" unfolding s'_def using assms(3,4) by (rule fatal_frame_step)
  have o: "timers_owned s" unfolding s_def by (rule owned_reachable)
  note f = disconnect_fields[OF o, of B]
  have c: "case ws s of
            None \<Rightarrow> True
          | Some v \<Rightarrow> last (effects s') = WsCloseCall v (Some 1000)
                    \<and> sockets s' v \<noteq> Some OPEN \<and> sockets s' v \<noteq> Some CONNECTING"
    using disconnect_closes[of s _ B] by (simp add: eq split: option.splits)
  have l: "list_all (\<lambda>e. \<not> restarts B e) later \<longrightarrow>
            state (run B later s') = Disconnected \<and> timers (run B later s') = []
            \<and> nextHandle (run B later s') = nextHandle s'"
    using quiet_run[of s' B later] f by (simp add: eq)
  show ?thesis using eq f c l by simp
qed

lemma unheld_socket_client_sockets:
  "sockets unheld_socket_client = [1 \<mapsto> CLOSED, 2 \<mapsto> OPEN]"
  by (rule ext)
     (simp add: unheld_socket_client_def new_Apinator_def run_simps runtime_simps conn_simps
      client_simps Let_def)

lemma unheld_socket_client_eq:
  "unheld_socket_client =
     \<lparr>ws = None, state = Connected, reconnectAttempts = 0, reconnectTimer = Some 3,
      activityTimer = Some 4, socketId = JStr ''123.456'', channels = [],
      pendingPresenceSelf = Map.empty, globalBindings = [], authEndpoint = JStr ''/auth'',
      heap = Map.empty, nextObj = 0, sockets = [1 \<mapsto> CLOSED, 2 \<mapsto> OPEN],
      timers = [(3, CallConnect, Millis 1000), (4, SendPing, SecondsAsMillis (JNum (Fin 5)))],
      nextHandle = 5, inflight = Map.empty, socketCtorThrows = False,
      effects = [OnStateChange Initialized Connecting, WsNew 1,
                 OnStateChange Connecting Disconnected, WsCloseCall 1 (Some 1000),
                 OnStateChange Disconnected Connecting, WsNew 2,
                 OnStateChange Connecting Connected,
                 OnMessage (JObj [(''event'', JStr ''realtime:connection_established''),
                                  (''data'', JStr ''EST_DATA'')])]\<rparr>"
proof -
  have "unheld_socket_client =
     \<lparr>ws = None, state = Connected, reconnectAttempts = 0, reconnectTimer = Some 3,
      activityTimer = Some 4, socketId = JStr ''123.456'', channels = [],
      pendingPresenceSelf = Map.empty, globalBindings = [], authEndpoint = JStr ''/auth'',
      heap = Map.empty, nextObj = 0, sockets = sockets unheld_socket_client,
      timers = [(3, CallConnect, Millis 1000), (4, SendPing, SecondsAsMillis (JNum (Fin 5)))],
      nextHandle = 5, inflight = Map.empty, socketCtorThrows = False,
      effects = [OnStateChange Initialized Connecting, WsNew 1,
                 OnStateChange Connecting Disconnected, WsCloseCall 1 (Some 1000),
                 OnStateChange Disconnected Connecting, WsNew 2,
                 OnStateChange Connecting Connected,
                 OnMessage (JObj [(''event'', JStr ''realtime:connection_established''),
                                  (''data'', JStr ''EST_DATA'')])]\<rparr>"
    by (simp add: unheld_socket_client_def new_Apinator_def run_simps runtime_simps conn_simps
        client_simps Let_def)
  then show ?thesis by (simp only: unheld_socket_client_sockets)
qed

lemma second_socket_client_sockets:
  "sockets second_socket_client = [1 \<mapsto> CLOSED, 2 \<mapsto> CONNECTING, 4 \<mapsto> OPEN]"
  by (rule ext)
     (simp add: second_socket_client_def new_Apinator_def run_simps runtime_simps conn_simps
      client_simps Let_def)

lemma second_socket_client_eq:
  "second_socket_client =
     \<lparr>ws = Some 4, state = Connected, reconnectAttempts = 0, reconnectTimer = None,
      activityTimer = Some 5, socketId = JStr ''123.456'', channels = [],
      pendingPresenceSelf = Map.empty, globalBindings = [], authEndpoint = JStr ''/auth'',
      heap = Map.empty, nextObj = 0, sockets = [1 \<mapsto> CLOSED, 2 \<mapsto> CONNECTING, 4 \<mapsto> OPEN],
      timers = [(5, SendPing, SecondsAsMillis (JNum (Fin 5)))],
      nextHandle = 6, inflight = Map.empty, socketCtorThrows = False,
      effects = [OnStateChange Initialized Connecting, WsNew 1,
                 OnStateChange Connecting Disconnected, WsCloseCall 1 (Some 1000),
                 OnStateChange Disconnected Connecting, WsNew 2,
                 OnStateChange Connecting Disconnected,
                 OnStateChange Disconnected Connecting, WsNew 4,
                 OnStateChange Connecting Connected,
                 OnMessage (JObj [(''event'', JStr ''realtime:connection_established''),
                                  (''data'', JStr ''EST_DATA'')])]\<rparr>"
proof -
  have "second_socket_client =
     \<lparr>ws = Some 4, state = Connected, reconnectAttempts = 0, reconnectTimer = None,
      activityTimer = Some 5, socketId = JStr ''123.456'', channels = [],
      pendingPresenceSelf = Map.empty, globalBindings = [], authEndpoint = JStr ''/auth'',
      heap = Map.empty, nextObj = 0, sockets = sockets second_socket_client,
      timers = [(5, SendPing, SecondsAsMillis (JNum (Fin 5)))],
      nextHandle = 6, inflight = Map.empty, socketCtorThrows = False,
      effects = [OnStateChange Initialized Connecting, WsNew 1,
                 OnStateChange Connecting Disconnected, WsCloseCall 1 (Some 1000),
                 OnStateChange Disconnected Connecting, WsNew 2,
                 OnStateChange Connecting Disconnected,
                 OnStateChange Disconnected Connecting, WsNew 4,
                 OnStateChange Connecting Connected,
                 OnMessage (JObj [(''event'', JStr ''realtime:connection_established''),
                                  (''data'', JStr ''EST_DATA'')])]\<rparr>"
    by (simp add: second_socket_client_def new_Apinator_def run_simps runtime_simps conn_simps
        client_simps Let_def)
  then show ?thesis by (simp only: second_socket_client_sockets)
qed

text \<open>
  C2.  The code at two inputs of the claim.  In the first client the connection holds no
  socket although socket 2 is open and established: the fatal frame \<open>ERR\<close> (code 4001)
  arrives on socket 2, the state becomes \<open>disconnected\<close>, and socket 2 is not closed:
  it is still open and the only close call ever made is the one on socket 1.  In the
  second client the fatal frame arrives on socket 4, which is held and is closed; the
  state is \<open>disconnected\<close> and no timer is pending.  Then socket 2 opens, the server
  establishes the session on it, and it closes: nobody has called \<open>connect()\<close>, and a
  reconnection attempt is scheduled, one second ahead, in state \<open>connecting\<close>.
\<close>

theorem fatal_error_then_unheld_socket:
  "fatal_error_frame demo_runtime ''ERR''
   \<and> sockets unheld_socket_client 2 = Some OPEN
   \<and> state (step demo_runtime (WsMessage 2 ''ERR'') unheld_socket_client) = Disconnected
   \<and> sockets (step demo_runtime (WsMessage 2 ''ERR'') unheld_socket_client) 2 = Some OPEN
   \<and> filter is_close_call (effects (step demo_runtime (WsMessage 2 ''ERR'') unheld_socket_client))
       = [WsCloseCall 1 (Some 1000)]
   \<and> sockets second_socket_client 4 = Some OPEN
   \<and> state (step demo_runtime (WsMessage 4 ''ERR'') second_socket_client) = Disconnected
   \<and> timers (step demo_runtime (WsMessage 4 ''ERR'') second_socket_client) = []
   \<and> sockets (step demo_runtime (WsMessage 4 ''ERR'') second_socket_client) 4 = Some CLOSING
   \<and> state (run demo_runtime [WsMessage 4 ''ERR'', WsOpen 2, WsMessage 2 ''EST'', WsClose 2]
               second_socket_client) = Connecting
   \<and> timers (run demo_runtime [WsMessage 4 ''ERR'', WsOpen 2, WsMessage 2 ''EST'', WsClose 2]
                second_socket_client) = [(7, CallConnect, Millis 1000)]"
  by (simp add: unheld_socket_client_eq second_socket_client_eq fatal_error_frame_def
      run_simps runtime_simps conn_simps client_simps Let_def)

subsection \<open>The keepalive grace timer\<close>

lemma pinged_client_eq:
  "pinged_client =
     \<lparr>ws = Some 1, state = Connected, reconnectAttempts = 0, reconnectTimer = None,
      activityTimer = Some 3, socketId = JStr ''123.456'', channels = [],
      pendingPresenceSelf = Map.empty, globalBindings = [], authEndpoint = JStr ''/auth'',
      heap = Map.empty, nextObj = 0, sockets = [1 \<mapsto> OPEN],
      timers = [(3, ForceClose, Millis 30000)], nextHandle = 4,
      inflight = Map.empty, socketCtorThrows = False,
      effects = [OnStateChange Initialized Connecting, WsNew 1, OnStateChange Connecting Connected,
                 OnMessage (JObj [(''event'', JStr ''realtime:connection_established''),
                                  (''data'', JStr ''EST_DATA'')]),
                 WsSend 1 ping_frame]\<rparr>"
  by (simp add: pinged_client_def connected_client_eq conn_simps Let_def)

text \<open>
  C3.  The code at the input of the claim: the ping has been sent and the grace timer
  (handle 3) is running; a \<open>pong\<close> frame arrives and is handled; the grace timer is still
  pending afterwards, and when it fires the socket is closed, although a frame was
  received in between.
\<close>

theorem grace_timer_survives_inbound_frame:
  "timers pinged_client = [(3, ForceClose, Millis 30000)]
   \<and> last (effects pinged_client) = WsSend 1 ping_frame
   \<and> sockets pinged_client 1 = Some OPEN
   \<and> timers (step demo_runtime (WsMessage 1 ''PONG'') pinged_client)
       = [(3, ForceClose, Millis 30000)]
   \<and> messages_delivered (step demo_runtime (WsMessage 1 ''PONG'') pinged_client)
       = messages_delivered pinged_client
         @ [JObj [(''event'', JStr ''realtime:pong''), (''data'', JStr ''{}'')]]
   \<and> last (effects (run demo_runtime [WsMessage 1 ''PONG'', TimerFires 3] pinged_client))
       = WsCloseCall 1 None
   \<and> sockets (run demo_runtime [WsMessage 1 ''PONG'', TimerFires 3] pinged_client) 1
       = Some CLOSING"
  by (simp add: pinged_client_eq run_simps runtime_simps conn_simps client_simps Let_def
      messages_delivered_def List.map_filter_simps)

subsection \<open>Forwarding of decoded frames\<close>














subsection \<open>The member count\<close>

lemma count_ok_new: "count_ok (new_Channel n p)"
  by (simp add: count_ok_def memberCount_def new_Channel_def)

lemma count_ok_clear: "count_ok (clearPresenceState_state ch)"
  by (simp add: count_ok_def memberCount_def clearPresenceState_state_def)

lemma handleSubscribed_state_presence:
  "presence (handleSubscribed_state d selfo ch) =
     (if isPresenceData d
      then \<lparr>count = JNum (Fin (of_nat (length (snapshot_ids d)))), ids = snapshot_ids d,
            hash = js_get (js_get d ''presence'') ''hash''\<rparr>
      else \<lparr>count = JNum (Fin 0), ids = [], hash = JObj []\<rparr>)"
proof -
  have "isPresenceData d \<Longrightarrow> isArray (js_get (js_get d ''presence'') ''ids'')
        \<and> \<not> nullish (js_get (js_get d ''presence'') ''hash'')"
    by (auto simp: isPresenceData_def Let_def nullish_def split: if_splits)
  then show ?thesis
    by (auto simp: handleSubscribed_state_def Let_def snapshot_ids_def clearPresenceState_state_def
        split: option.splits)
qed

lemma count_ok_subscribed: "count_ok (handleSubscribed_state d selfo ch)"
  by (simp add: count_ok_def memberCount_def handleSubscribed_state_presence snapshot_ids_def)

lemma count_ok_added: "count_ok (handleMemberAdded_state uid uinfo ch)"
  by (simp add: count_ok_def memberCount_def handleMemberAdded_state_def Let_def)

lemma count_ok_removed: "count_ok (handleMemberRemoved_state uid ch)"
  by (simp add: count_ok_def memberCount_def handleMemberRemoved_state_def Let_def)

lemma count_ok_step: "count_ok (presence_step op ch)"
  by (cases op) (simp_all add: count_ok_clear count_ok_subscribed count_ok_added count_ok_removed)

lemma count_ok_fold: "count_ok ch \<Longrightarrow> count_ok (fold presence_step ops ch)"
  by (induction ops arbitrary: ch) (simp_all add: count_ok_step)

text \<open>The invariant on the objects of a whole client.\<close>

lemma counts_heap: "heap t = heap s \<Longrightarrow> counts_ok t = counts_ok s"
  by (simp add: counts_ok_def)

lemma fold_inv:
  assumes "\<And>x t. P t \<Longrightarrow> P (f x t)" "P s"
  shows "P (fold f xs s)"
  using assms by (induction xs arbitrary: s) auto

lemma heap_emitEffect: "heap (emitEffect e s) = heap s"
  by (simp add: emitEffect_def)

lemma heap_send: "heap (send m s) = heap s"
  by (simp add: send_def heap_emitEffect split: option.splits)

lemma heap_run_callback: "heap (run_callback B d cb s) = heap s"
  by (cases cb) (simp_all add: heap_emitEffect heap_send)

lemma heap_fold_callbacks: "heap (fold (run_callback B d) cbs s) = heap s"
  by (induction cbs arbitrary: s) (simp_all add: heap_run_callback)

lemma heap_emit: "heap (emit B cid e d s) = heap s"
  by (simp add: emit_def heap_fold_callbacks split: option.splits)

lemma heap_fire_global: "heap (fire_global cbs d s) = heap s"
  unfolding fire_global_def by (induction cbs arbitrary: s) (simp_all add: heap_emitEffect)

lemma counts_emit: "counts_ok (emit B cid e d s) = counts_ok s"
  by (rule counts_heap) (rule heap_emit)

lemma counts_upd_chan:
  "counts_ok s \<Longrightarrow> (\<And>ch. count_ok ch \<Longrightarrow> count_ok (f ch)) \<Longrightarrow> counts_ok (upd_chan cid f s)"
  by (auto simp: counts_ok_def upd_chan_def split: option.splits)

lemma count_ok_bindings: "count_ok (ch\<lparr>bindings := b\<rparr>) = count_ok ch"
  "count_ok (ch\<lparr>subscribed := x\<rparr>) = count_ok ch"
  by (simp_all add: count_ok_def memberCount_def)

lemma counts_Channel_handleSubscribed:
  "counts_ok s \<Longrightarrow> counts_ok (Channel_handleSubscribed B cid d s)"
  by (simp add: Channel_handleSubscribed_def counts_emit counts_upd_chan count_ok_bindings)

lemma counts_Channel_handleError:
  "counts_ok s \<Longrightarrow> counts_ok (Channel_handleError B cid d s)"
  by (simp add: Channel_handleError_def counts_emit counts_upd_chan count_ok_bindings)

lemma counts_clearPresence:
  "counts_ok s \<Longrightarrow> counts_ok (PresenceChannel_clearPresenceState cid s)"
  by (simp add: PresenceChannel_clearPresenceState_def counts_upd_chan count_ok_clear)

lemma counts_effect: "counts_ok (emitEffect e s) = counts_ok s"
  by (rule counts_heap) (rule heap_emitEffect)

lemma counts_Presence_handleSubscribed:
  "counts_ok s \<Longrightarrow> counts_ok (PresenceChannel_handleSubscribed B cid d selfo s)"
  by (simp add: PresenceChannel_handleSubscribed_def Let_def counts_Channel_handleSubscribed
      counts_effect counts_upd_chan count_ok_subscribed)

lemma counts_handleMemberAdded:
  "counts_ok s \<Longrightarrow> counts_ok (PresenceChannel_handleMemberAdded B cid i s)"
  by (simp add: PresenceChannel_handleMemberAdded_def counts_emit counts_upd_chan count_ok_added)

lemma counts_handleMemberRemoved:
  "counts_ok s \<Longrightarrow> counts_ok (PresenceChannel_handleMemberRemoved B cid i s)"
  by (simp add: PresenceChannel_handleMemberRemoved_def counts_emit counts_upd_chan count_ok_removed)

lemma counts_updates:
  "counts_ok (s\<lparr>pendingPresenceSelf := p\<rparr>) = counts_ok s"
  "counts_ok (s\<lparr>channels := c\<rparr>) = counts_ok s"
  "counts_ok (s\<lparr>inflight := i\<rparr>) = counts_ok s"
  "counts_ok (s\<lparr>nextObj := n\<rparr>) = counts_ok s"
  "counts_ok (s\<lparr>globalBindings := g\<rparr>) = counts_ok s"
  "counts_ok (s\<lparr>state := st\<rparr>) = counts_ok s"
  "counts_ok (s\<lparr>ws := w\<rparr>) = counts_ok s"
  "counts_ok (s\<lparr>sockets := so\<rparr>) = counts_ok s"
  "counts_ok (s\<lparr>timers := ti\<rparr>) = counts_ok s"
  "counts_ok (s\<lparr>nextHandle := nh\<rparr>) = counts_ok s"
  "counts_ok (s\<lparr>reconnectAttempts := ra\<rparr>) = counts_ok s"
  "counts_ok (s\<lparr>reconnectTimer := rt\<rparr>) = counts_ok s"
  "counts_ok (s\<lparr>activityTimer := a\<rparr>) = counts_ok s"
  "counts_ok (s\<lparr>socketId := si\<rparr>) = counts_ok s"
  "counts_ok (s\<lparr>effects := ef\<rparr>) = counts_ok s"
  by (simp_all add: counts_ok_def)

lemma counts_Apinator_clearPresenceState:
  "counts_ok s \<Longrightarrow> counts_ok (Apinator_clearPresenceState s)"
  unfolding Apinator_clearPresenceState_def
  by (rule fold_inv) (simp_all add: counts_clearPresence counts_updates)

lemma counts_send: "counts_ok (send m s) = counts_ok s"
  by (rule counts_heap) (rule heap_send)

lemma counts_sendSubscribe: "counts_ok s \<Longrightarrow> counts_ok (sendSubscribe B cid s)"
  by (simp add: sendSubscribe_def Let_def counts_Channel_handleError counts_send counts_effect
      counts_updates split: option.splits)

lemma counts_sendSubscribe_resume:
  "counts_ok s \<Longrightarrow> counts_ok (sendSubscribe_resume B r res s)"
  by (simp add: sendSubscribe_resume_def Let_def counts_Channel_handleError counts_send
      counts_updates split: option.splits auth_result.splits)

lemma counts_fire_global: "counts_ok (fire_global cbs d s) = counts_ok s"
  by (rule counts_heap) (rule heap_fire_global)

lemma counts_route: "counts_ok s \<Longrightarrow> counts_ok (route B msg c cid s)"
  by (simp add: route_def Let_def counts_Presence_handleSubscribed counts_Channel_handleSubscribed
      counts_updates counts_clearPresence counts_Channel_handleError counts_effect
      counts_handleMemberAdded counts_handleMemberRemoved Channel_handleEvent_def counts_emit
      split: json.splits)

lemma counts_Apinator_handleMessage:
  "counts_ok s \<Longrightarrow> counts_ok (Apinator_handleMessage B msg s)"
  by (simp add: Apinator_handleMessage_def Let_def counts_route counts_fire_global
      split: json.splits option.splits)

lemma counts_Apinator_handleStateChange:
  "counts_ok s \<Longrightarrow> counts_ok (Apinator_handleStateChange B p c s)"
proof -
  assume a: "counts_ok s"
  have f: "counts_ok t \<Longrightarrow> counts_ok (fold (sendSubscribe B) xs t)" for xs t
    by (rule fold_inv) (simp_all add: counts_sendSubscribe)
  show ?thesis
    using a
    by (simp add: Apinator_handleStateChange_def Let_def counts_fire_global f
        counts_Apinator_clearPresenceState split: option.splits)
qed

lemma counts_setState: "counts_ok s \<Longrightarrow> counts_ok (setState B st s)"
  by (simp add: setState_def Let_def counts_Apinator_handleStateChange counts_effect counts_updates)

lemma counts_onMessage: "counts_ok s \<Longrightarrow> counts_ok (onMessage B msg s)"
  by (simp add: onMessage_def counts_Apinator_handleMessage counts_effect)

lemma counts_clearTimers: "counts_ok (clearTimers s) = counts_ok s"
  by (rule counts_heap)
     (simp add: clearTimers_def clearTimeout_def Let_def split: option.splits)

lemma counts_ws_close: "counts_ok (ws_close w c s) = counts_ok s"
  by (rule counts_heap) (simp add: ws_close_def emitEffect_def)

lemma counts_setTimeout: "counts_ok (setTimeout cb d s) = counts_ok s"
  by (rule counts_heap) (simp add: setTimeout_def)

lemma counts_resetActivityTimer: "counts_ok (resetActivityTimer t s) = counts_ok s"
  by (rule counts_heap)
     (simp add: resetActivityTimer_def setTimeout_def clearTimeout_def Let_def split: option.splits)

lemma counts_disconnect: "counts_ok s \<Longrightarrow> counts_ok (disconnect B s)"
  by (simp add: disconnect_def Let_def counts_setState counts_clearTimers counts_ws_close
      counts_updates split: option.splits)

lemma counts_handleDisconnect: "counts_ok s \<Longrightarrow> counts_ok (handleDisconnect B s)"
  by (simp add: handleDisconnect_def Let_def counts_setState counts_clearTimers counts_setTimeout
      counts_updates)

lemma counts_connect: "counts_ok s \<Longrightarrow> counts_ok (connect B s)"
  by (simp add: connect_def Let_def counts_setState counts_handleDisconnect counts_effect
      counts_updates)

lemma counts_Connection_handleMessage:
  "counts_ok s \<Longrightarrow> Connection_handleMessage B msg s = Inr t \<Longrightarrow> counts_ok t"
  by (auto simp: Connection_handleMessage_def Let_def counts_onMessage counts_disconnect
      counts_resetActivityTimer counts_setState counts_updates split: if_splits option.splits)

lemma counts_fire_timer: "counts_ok s \<Longrightarrow> counts_ok (fire_timer B h s)"
  by (simp add: fire_timer_def Let_def counts_connect counts_send counts_setTimeout
      counts_ws_close counts_updates split: option.splits timer_callback.splits prod.splits)

lemma counts_Channel_trigger:
  "counts_ok s \<Longrightarrow> Channel_trigger B cid e d s = Inr t \<Longrightarrow> counts_ok t"
  by (auto simp: Channel_trigger_def counts_emit split: option.splits if_splits)

lemma counts_Apinator_trigger:
  "counts_ok s \<Longrightarrow> Apinator_trigger B n e d s = Inr t \<Longrightarrow> counts_ok t"
  by (auto simp: Apinator_trigger_def split: option.splits if_splits dest: counts_Channel_trigger)

lemma counts_subscribe: "counts_ok s \<Longrightarrow> counts_ok (snd (subscribe B n s))"
proof -
  assume a: "counts_ok s"
  have n: "counts_ok (s\<lparr>heap := (heap s)(nextObj s \<mapsto> new_Channel n p), nextObj := Suc (nextObj s),
                       channels := AList.update n (nextObj s) (channels s)\<rparr>)" for p
    using a by (auto simp: counts_ok_def count_ok_new)
  have b: "count_ok ch \<Longrightarrow> count_ok (bind_state e cb ch)" for e cb ch
    by (simp add: bind_state_def Let_def count_ok_bindings)
  show ?thesis
    using a n
    by (simp add: subscribe_def Let_def counts_sendSubscribe Channel_bind_def counts_upd_chan b
        split: option.splits)
qed

lemma counts_unsubscribe: "counts_ok s \<Longrightarrow> counts_ok (unsubscribe B n s)"
  by (simp add: unsubscribe_def Let_def Channel_unbindAll_def counts_upd_chan count_ok_bindings
      counts_clearPresence counts_send counts_updates split: option.splits)

lemma counts_step: "counts_ok s \<Longrightarrow> counts_ok (step B e s)"
proof (cases e)
  case (ChanBind cid ev k)
  have "count_ok ch \<Longrightarrow> count_ok (bind_state ev cb ch)" for cb ch
    by (simp add: bind_state_def Let_def count_ok_bindings)
  with ChanBind show "counts_ok s \<Longrightarrow> ?thesis" by (simp add: Channel_bind_def counts_upd_chan)
next
  case (ChanUnbind cid ev ko)
  have "count_ok ch \<Longrightarrow> count_ok (unbind_state ev cbo ch)" for cbo ch
    by (simp add: unbind_state_def count_ok_bindings split: option.splits)
  with ChanUnbind show "counts_ok s \<Longrightarrow> ?thesis" by (simp add: Channel_unbind_def counts_upd_chan)
next
  case (WsMessage w raw)
  then show "counts_ok s \<Longrightarrow> ?thesis"
    by (auto simp: or_unchanged_def ws_onmessage_def split: sum.splits option.splits
        dest: counts_Connection_handleMessage)
next
  case (UserTrigger n ev d)
  then show "counts_ok s \<Longrightarrow> ?thesis"
    by (auto simp: or_unchanged_def split: sum.splits dest: counts_Apinator_trigger)
next
  case (ChanTrigger cid ev d)
  then show "counts_ok s \<Longrightarrow> ?thesis"
    by (auto simp: or_unchanged_def split: sum.splits dest: counts_Channel_trigger)
qed (simp_all add: counts_connect counts_disconnect counts_subscribe counts_unsubscribe
      Apinator_bind_def Apinator_unbind_def Let_def counts_updates Channel_unbindAll_def
      counts_upd_chan count_ok_bindings ws_onopen_def ws_onclose_def counts_handleDisconnect
      counts_fire_timer counts_sendSubscribe_resume split: option.splits)

lemma counts_run: "counts_ok s \<Longrightarrow> counts_ok (run B evs s)"
  unfolding run_def by (induction evs arbitrary: s) (simp_all add: counts_step)

lemma counts_new: "counts_ok (new_Apinator ep ct)"
  by (simp add: counts_ok_def new_Apinator_def)

text \<open>
  C5.  The member count of a presence channel is the length of its member-ID sequence:
  on a new channel; after every sequence of the operations that change the presence state
  (clearing, snapshot on subscription success, member added, member removed), and after
  each of them from any state; on every channel object of a client, in every run from
  its construction.  After a snapshot the count is the number of string entries of the
  snapshot's \<open>ids\<close> list, whatever the \<open>count\<close> field of the snapshot says.
\<close>

theorem memberCount_is_ids_length:
  "memberCount (new_Channel n True) = JNum (Fin (of_nat (length (ids (presence (new_Channel n True))))))
   \<and> memberCount (fold presence_step ops (new_Channel n True))
       = JNum (Fin (of_nat (length (ids (presence (fold presence_step ops (new_Channel n True)))))))
   \<and> memberCount (presence_step op ch)
       = JNum (Fin (of_nat (length (ids (presence (presence_step op ch))))))
   \<and> counts_ok (run B evs (new_Apinator ep ct))
   \<and> memberCount (handleSubscribed_state d selfo ch) = JNum (Fin (of_nat (length (snapshot_ids d))))
   \<and> ids (presence (handleSubscribed_state d selfo ch)) = snapshot_ids d"
  using count_ok_new[of n True] count_ok_fold[OF count_ok_new, of ops n True] count_ok_step[of op ch]
    counts_run[OF counts_new, of B evs ep ct]
  by (simp add: count_ok_def memberCount_def handleSubscribed_state_presence snapshot_ids_def)

lemma room_client_heap:
  "heap room_client 0 =
     Some \<lparr>name = ''presence-room'', bindings = [(''__internal_trigger'', [InternalTrigger ''presence-room''])],
           subscribed = False, isPresenceChannel = True,
           presence = \<lparr>count = JNum (Fin 0), ids = [], hash = JObj []\<rparr>, self = None\<rparr>"
  by (simp add: room_client_def new_Apinator_def run_simps client_simps Let_def)

lemma room_AB_heap:
  "heap room_AB 0 =
     Some \<lparr>name = ''presence-room'', bindings = [(''__internal_trigger'', [InternalTrigger ''presence-room''])],
           subscribed = True, isPresenceChannel = True,
           presence = \<lparr>count = JNum (Fin 2), ids = [''1'', ''2''],
                       hash = JObj [(''1'', JObj [(''name'', JStr ''Alice'')]),
                                    (''2'', JObj [(''name'', JStr ''Bob'')])]\<rparr>, self = None\<rparr>"
proof -
  have e: "heap (emit B cid ev d s) = heap s" for B cid ev d s by (rule heap_emit)
  show ?thesis
    by (simp add: room_AB_def PresenceChannel_handleSubscribed_def Channel_handleSubscribed_def
        Let_def e upd_chan_def emitEffect_def room_client_heap handleSubscribed_state_def
        isPresenceData_def snapshot_AB_def clearPresenceState_state_def nullish_def)
qed

theorem memberCount_is_ids_length_witness:
  "snapshot_ids snapshot_AB = [''1'', ''2'']
   \<and> js_get (js_get snapshot_AB ''presence'') ''count'' = JNum (Fin 7)
   \<and> memberCount (handleSubscribed_state snapshot_AB None (new_Channel ''presence-room'' True))
       = JNum (Fin 2)
   \<and> counts_ok room_client"
proof -
  have i: "snapshot_ids snapshot_AB = [''1'', ''2'']"
    by (simp add: snapshot_ids_def isPresenceData_def snapshot_AB_def)
  have c: "js_get (js_get snapshot_AB ''presence'') ''count'' = JNum (Fin 7)"
    by (simp add: snapshot_AB_def)
  from memberCount_is_ids_length[of "''presence-room''" "[]" ClearPresenceState
      "new_Channel ''presence-room'' True" demo_runtime "[UserSubscribe ''presence-room'']"
      "JStr ''/auth''" False snapshot_AB None, folded room_client_def]
  show ?thesis using i c by simp
qed

subsection \<open>Snapshots replace the presence state\<close>

lemma members_of_filter:
  "members_of B h xs = map (\<lambda>i. \<lparr>user_id = i, user_info = js_index B h i\<rparr>)
                           (filter (\<lambda>i. truthy (js_index B h i)) xs)"
  by (induction xs) (simp_all add: Let_def)

lemma heap_Presence_handleSubscribed:
  "heap s cid = Some ch \<Longrightarrow>
   heap (PresenceChannel_handleSubscribed B cid d selfo s) cid
     = Some ((handleSubscribed_state d selfo ch)\<lparr>subscribed := True\<rparr>)"
  by (simp add: PresenceChannel_handleSubscribed_def Channel_handleSubscribed_def Let_def
      heap_emit upd_chan_def emitEffect_def)

text \<open>
  What does hold: handling a subscription-succeeded snapshot replaces the presence state,
  whatever it was.  Afterwards the accessors answer from the snapshot alone, through the
  read \<open>hash[id]\<close>: \<open>getMembers()\<close> lists the IDs of the snapshot for which that read
  is truthy, and \<open>getMember(id)\<close> returns a member exactly when it is.  Where the
  runtime gives the hash no inherited member of that name, the read is the own entry.
\<close>

lemma snapshot_decides_members:
  fixes s cid ch d selfo B u
  assumes "heap s cid = Some ch"
  defines "ch' \<equiv> (handleSubscribed_state d selfo ch)\<lparr>subscribed := True\<rparr>"
  shows "heap (PresenceChannel_handleSubscribed B cid d selfo s) cid = Some ch'
       \<and> getMembers B ch'
           = map (\<lambda>i. \<lparr>user_id = i, user_info = js_index B (snapshot_hash d) i\<rparr>)
               (filter (\<lambda>i. truthy (js_index B (snapshot_hash d) i)) (snapshot_ids d))
       \<and> getMember B ch' u
           = (if truthy (js_index B (snapshot_hash d) u)
              then Some \<lparr>user_id = u, user_info = js_index B (snapshot_hash d) u\<rparr> else None)
       \<and> (inherited B (snapshot_hash d) u = JUndefined
            \<longrightarrow> js_index B (snapshot_hash d) u = js_get (snapshot_hash d) u)"
proof -
  have "\<not> has_own h u \<Longrightarrow> js_get h u = JUndefined" for h
    by (cases h) (auto split: option.splits)
  then show ?thesis
    using heap_Presence_handleSubscribed[OF assms(1), of B d selfo]
    by (auto simp: ch'_def getMembers_def getMember_def members_of_filter Let_def
        handleSubscribed_state_presence snapshot_hash_def snapshot_ids_def js_index_def)
qed

lemma room_T_heap:
  "heap room_T 0 =
     Some \<lparr>name = ''presence-room'', bindings = [(''__internal_trigger'', [InternalTrigger ''presence-room''])],
           subscribed = True, isPresenceChannel = True,
           presence = \<lparr>count = JNum (Fin 1), ids = [''toString''],
                       hash = JObj [(''toString'', JObj [(''name'', JStr ''Tess'')])]\<rparr>, self = None\<rparr>"
  by (simp add: room_T_def heap_Presence_handleSubscribed[OF room_client_heap]
      handleSubscribed_state_def isPresenceData_def snapshot_T_def clearPresenceState_state_def
      nullish_def Let_def)

text \<open>
  C6.  The code at two inputs of the claim, in a runtime where a plain object inherits
  the members of \<open>Object.prototype\<close>.  A snapshot lists the IDs \<open>3\<close> and
  \<open>constructor\<close> and its hash has an entry for \<open>3\<close> only: \<open>getMembers()\<close> returns
  two members, the second with the function \<open>Object\<close> as its user info.  And a channel
  whose one member has the ID \<open>toString\<close> receives the snapshot with member \<open>3\<close>
  alone: \<open>toString\<close> is absent from the snapshot, and \<open>getMember("toString")\<close> still
  returns a member, with the function \<open>Object.prototype.toString\<close> as its user info.
\<close>

theorem inherited_names_count_as_members:
  "snapshot_ids snapshot_C_constructor = [''3'', ''constructor'']
   \<and> js_get (snapshot_hash snapshot_C_constructor) ''constructor'' = JUndefined
   \<and> getMembers demo_runtime
        (the (heap (PresenceChannel_handleSubscribed demo_runtime 0 snapshot_C_constructor None room_AB) 0))
       = [\<lparr>user_id = ''3'', user_info = JObj [(''name'', JStr ''Carol'')]\<rparr>,
          \<lparr>user_id = ''constructor'', user_info = JFunction ''Object''\<rparr>]
   \<and> getMember demo_runtime (the (heap room_T 0)) ''toString''
       = Some \<lparr>user_id = ''toString'', user_info = JObj [(''name'', JStr ''Tess'')]\<rparr>
   \<and> snapshot_ids snapshot_C = [''3'']
   \<and> js_get (snapshot_hash snapshot_C) ''toString'' = JUndefined
   \<and> getMember demo_runtime
        (the (heap (PresenceChannel_handleSubscribed demo_runtime 0 snapshot_C None room_T) 0)) ''toString''
       = Some \<lparr>user_id = ''toString'', user_info = JFunction ''Object.prototype.toString''\<rparr>"
proof -
  have i: "snapshot_ids snapshot_C_constructor = [''3'', ''constructor'']"
    "snapshot_hash snapshot_C_constructor = JObj [(''3'', JObj [(''name'', JStr ''Carol'')])]"
    "snapshot_ids snapshot_C = [''3'']"
    "snapshot_hash snapshot_C = JObj [(''3'', JObj [(''name'', JStr ''Carol'')])]"
    by (simp_all add: snapshot_ids_def snapshot_hash_def isPresenceData_def
        snapshot_C_constructor_def snapshot_C_def)
  have x: "js_index demo_runtime (JObj [(''3'', JObj [(''name'', JStr ''Carol'')])]) ''3''
             = JObj [(''name'', JStr ''Carol'')]"
    "js_index demo_runtime (JObj [(''3'', JObj [(''name'', JStr ''Carol'')])]) ''constructor''
             = JFunction ''Object''"
    "js_index demo_runtime (JObj [(''3'', JObj [(''name'', JStr ''Carol'')])]) ''toString''
             = JFunction ''Object.prototype.toString''"
    "js_index demo_runtime (JObj [(''toString'', JObj [(''name'', JStr ''Tess'')])]) ''toString''
             = JObj [(''name'', JStr ''Tess'')]"
    by (simp_all add: js_index_def runtime_simps)
  note a = snapshot_decides_members[OF room_AB_heap, of demo_runtime snapshot_C_constructor None]
  note b = snapshot_decides_members[OF room_T_heap, of demo_runtime snapshot_C None "''toString''"]
  show ?thesis
    using a b by (simp add: i x room_T_heap getMember_def)
qed

subsection \<open>The registry\<close>

lemma fold_same:
  assumes "\<And>x t. g (f x t) = g t"
  shows "g (fold f xs s) = g s"
  using assms by (induction xs arbitrary: s) auto

lemma channels_emitEffect: "channels (emitEffect e s) = channels s"
  by (simp add: emitEffect_def)

lemma channels_send: "channels (send m s) = channels s"
  by (simp add: send_def channels_emitEffect split: option.splits)

lemma channels_upd_chan: "channels (upd_chan cid f s) = channels s"
  by (simp add: upd_chan_def split: option.splits)

lemma channels_run_callback: "channels (run_callback B d cb s) = channels s"
  by (cases cb) (simp_all add: channels_emitEffect channels_send)

lemma channels_emit: "channels (emit B cid e d s) = channels s"
  by (simp add: emit_def fold_same[of channels] channels_run_callback split: option.splits)

lemma channels_Channel_handleError: "channels (Channel_handleError B cid d s) = channels s"
  by (simp add: Channel_handleError_def channels_emit channels_upd_chan)

lemma channels_Channel_handleSubscribed: "channels (Channel_handleSubscribed B cid d s) = channels s"
  by (simp add: Channel_handleSubscribed_def channels_emit channels_upd_chan)

lemma channels_clearPresence: "channels (PresenceChannel_clearPresenceState cid s) = channels s"
  by (simp add: PresenceChannel_clearPresenceState_def channels_upd_chan)

lemma channels_Apinator_clearPresenceState: "channels (Apinator_clearPresenceState s) = channels s"
  by (simp add: Apinator_clearPresenceState_def fold_same[of channels] channels_clearPresence)

lemma channels_sendSubscribe: "channels (sendSubscribe B cid s) = channels s"
  by (simp add: sendSubscribe_def Let_def channels_Channel_handleError channels_send
      channels_emitEffect split: option.splits)

lemma channels_sendSubscribe_resume: "channels (sendSubscribe_resume B r res s) = channels s"
  by (simp add: sendSubscribe_resume_def Let_def channels_Channel_handleError channels_send
      split: option.splits auth_result.splits)

lemma channels_fire_global: "channels (fire_global cbs d s) = channels s"
  by (simp add: fire_global_def fold_same[of channels] channels_emitEffect)

lemma channels_route: "channels (route B msg c cid s) = channels s"
  by (simp add: route_def Let_def PresenceChannel_handleSubscribed_def
      PresenceChannel_handleMemberAdded_def PresenceChannel_handleMemberRemoved_def
      Channel_handleEvent_def channels_Channel_handleSubscribed channels_Channel_handleError
      channels_clearPresence channels_emitEffect channels_emit channels_upd_chan
      split: json.splits)

lemma channels_Apinator_handleMessage: "channels (Apinator_handleMessage B msg s) = channels s"
  by (simp add: Apinator_handleMessage_def Let_def channels_route channels_fire_global
      split: json.splits option.splits)

lemma channels_Apinator_handleStateChange:
  "channels (Apinator_handleStateChange B p c s) = channels s"
  by (simp add: Apinator_handleStateChange_def Let_def channels_fire_global
      fold_same[of channels] channels_sendSubscribe channels_Apinator_clearPresenceState
      split: option.splits)

lemma channels_setState: "channels (setState B st s) = channels s"
  by (simp add: setState_def Let_def channels_Apinator_handleStateChange channels_emitEffect)

lemma channels_onMessage: "channels (onMessage B msg s) = channels s"
  by (simp add: onMessage_def channels_Apinator_handleMessage channels_emitEffect)

lemma channels_clearTimers: "channels (clearTimers s) = channels s"
  by (simp add: clearTimers_def clearTimeout_def Let_def split: option.splits)

lemma channels_disconnect: "channels (disconnect B s) = channels s"
  by (simp add: disconnect_def Let_def channels_setState channels_clearTimers ws_close_def
      emitEffect_def split: option.splits)

lemma channels_handleDisconnect: "channels (handleDisconnect B s) = channels s"
  by (simp add: handleDisconnect_def Let_def channels_setState channels_clearTimers setTimeout_def)

lemma channels_connect: "channels (connect B s) = channels s"
  by (simp add: connect_def Let_def channels_setState channels_handleDisconnect emitEffect_def)

lemma channels_Connection_handleMessage:
  "Connection_handleMessage B msg s = Inr t \<Longrightarrow> channels t = channels s"
  by (auto simp: Connection_handleMessage_def Let_def channels_onMessage channels_disconnect
      channels_setState resetActivityTimer_def setTimeout_def clearTimeout_def
      split: if_splits option.splits)

lemma channels_fire_timer: "channels (fire_timer B h s) = channels s"
  by (simp add: fire_timer_def Let_def channels_connect channels_send setTimeout_def
      ws_close_def emitEffect_def split: option.splits timer_callback.splits prod.splits)

lemma channels_Channel_trigger:
  "Channel_trigger B cid e d s = Inr t \<Longrightarrow> channels t = channels s"
  by (auto simp: Channel_trigger_def channels_emit split: option.splits if_splits)

lemma channels_Apinator_trigger:
  "Apinator_trigger B n e d s = Inr t \<Longrightarrow> channels t = channels s"
  by (auto simp: Apinator_trigger_def split: option.splits if_splits dest: channels_Channel_trigger)

lemma channels_subscribe:
  "channels (snd (subscribe B n s)) =
     (case map_of (channels s) n of
        Some cid \<Rightarrow> channels s
      | None \<Rightarrow> AList.update n (nextObj s) (channels s))"
  by (simp add: subscribe_def Let_def channels_sendSubscribe Channel_bind_def channels_upd_chan
      split: option.splits)

lemma channels_unsubscribe: "channels (unsubscribe B n s) = AList.delete n (channels s)"
proof (cases "map_of (channels s) n")
  case None
  then have "n \<notin> fst ` set (channels s)" by (simp add: map_of_eq_None_iff)
  then have "AList.delete n (channels s) = channels s"
    by (simp add: AList.delete_eq filter_id_conv) force
  with None show ?thesis by (simp add: unsubscribe_def)
next
  case (Some cid)
  then show ?thesis
    by (simp add: unsubscribe_def Let_def Channel_unbindAll_def channels_upd_chan
        channels_clearPresence channels_send)
qed

lemma registry_step:
  "distinct (map fst (channels s)) \<Longrightarrow> distinct (map fst (channels (step B e s)))"
proof (cases e)
  case (UserSubscribe n)
  then show "distinct (map fst (channels s)) \<Longrightarrow> ?thesis"
    by (simp add: channels_subscribe distinct_update split: option.splits)
next
  case (UserUnsubscribe n)
  then show "distinct (map fst (channels s)) \<Longrightarrow> ?thesis"
    by (simp add: channels_unsubscribe distinct_delete)
next
  case (WsMessage w raw)
  then show "distinct (map fst (channels s)) \<Longrightarrow> ?thesis"
    by (auto simp: or_unchanged_def ws_onmessage_def split: sum.splits option.splits
        dest: channels_Connection_handleMessage)
next
  case (UserTrigger n ev d)
  then show "distinct (map fst (channels s)) \<Longrightarrow> ?thesis"
    by (auto simp: or_unchanged_def split: sum.splits dest: channels_Apinator_trigger)
next
  case (ChanTrigger cid ev d)
  then show "distinct (map fst (channels s)) \<Longrightarrow> ?thesis"
    by (auto simp: or_unchanged_def split: sum.splits dest: channels_Channel_trigger)
qed (simp_all add: channels_connect channels_disconnect Apinator_bind_def Apinator_unbind_def
      Let_def Channel_bind_def Channel_unbind_def Channel_unbindAll_def channels_upd_chan
      ws_onopen_def ws_onclose_def channels_handleDisconnect channels_fire_timer
      channels_sendSubscribe_resume split: option.splits)

lemma registry_run:
  "distinct (map fst (channels s)) \<Longrightarrow> distinct (map fst (channels (run B evs s)))"
  unfolding run_def by (induction evs arbitrary: s) (simp_all add: registry_step)

text \<open>
  C8.  \<open>subscribe(name)\<close> for a name that is registered returns the registered channel
  object and changes nothing: no object, binding, or frame is created.  And in every run
  of a client from its construction, no name is registered twice.
\<close>

theorem subscribe_idempotent:
  "(map_of (channels s) n = Some cid \<longrightarrow> subscribe B n s = (cid, s))
   \<and> distinct (map fst (channels (run B evs (new_Apinator ep ct))))"
  using registry_run[of "new_Apinator ep ct" B evs]
  by (simp add: subscribe_def new_Apinator_def)

theorem subscribe_idempotent_witness:
  "map_of (channels room_client) ''presence-room'' = Some 0
   \<and> subscribe demo_runtime ''presence-room'' room_client = (0, room_client)
   \<and> step demo_runtime (UserSubscribe ''presence-room'') room_client = room_client"
proof -
  have h: "map_of (channels room_client) ''presence-room'' = Some 0"
    by (simp add: room_client_def new_Apinator_def run_simps client_simps Let_def)
  from subscribe_idempotent[of room_client "''presence-room''" 0 demo_runtime] h
  show ?thesis by simp
qed

subsection \<open>The pending self-identity\<close>

lemma awaiting_auth_eq:
  "awaiting_auth =
     \<lparr>ws = Some 1, state = Connected, reconnectAttempts = 0, reconnectTimer = None,
      activityTimer = Some 2, socketId = JStr ''123.456'', channels = [(''presence-room'', 0)],
      pendingPresenceSelf = Map.empty, globalBindings = [], authEndpoint = JStr ''/auth'',
      heap = [0 \<mapsto> \<lparr>name = ''presence-room'',
                       bindings = [(''__internal_trigger'', [InternalTrigger ''presence-room'']),
                                   (''realtime:subscription_error'', [UserFn 7])],
                       subscribed = False, isPresenceChannel = True,
                       presence = \<lparr>count = JNum (Fin 0), ids = [], hash = JObj []\<rparr>, self = None\<rparr>],
      nextObj = 2, sockets = [1 \<mapsto> OPEN],
      timers = [(2, SendPing, SecondsAsMillis (JNum (Fin 5)))], nextHandle = 3,
      inflight = [1 \<mapsto> 0], socketCtorThrows = False,
      effects = [OnStateChange Initialized Connecting, WsNew 1, OnStateChange Connecting Connected,
                 OnMessage (JObj [(''event'', JStr ''realtime:connection_established''),
                                  (''data'', JStr ''EST_DATA'')]),
                 FetchAuth 1 (JStr ''123.456'') ''presence-room'']\<rparr>"
  by (simp add: awaiting_auth_def connected_client_eq run_simps client_simps Let_def emitEffect_def)

lemma unsubscribed_in_flight_eq:
  "unsubscribed_in_flight =
     \<lparr>ws = Some 1, state = Connected, reconnectAttempts = 0, reconnectTimer = None,
      activityTimer = Some 2, socketId = JStr ''123.456'', channels = [],
      pendingPresenceSelf = Map.empty, globalBindings = [], authEndpoint = JStr ''/auth'',
      heap = [0 \<mapsto> \<lparr>name = ''presence-room'', bindings = [],
                       subscribed = False, isPresenceChannel = True,
                       presence = \<lparr>count = JNum (Fin 0), ids = [], hash = JObj []\<rparr>, self = None\<rparr>],
      nextObj = 2, sockets = [1 \<mapsto> OPEN],
      timers = [(2, SendPing, SecondsAsMillis (JNum (Fin 5)))], nextHandle = 3,
      inflight = [1 \<mapsto> 0], socketCtorThrows = False,
      effects = [OnStateChange Initialized Connecting, WsNew 1, OnStateChange Connecting Connected,
                 OnMessage (JObj [(''event'', JStr ''realtime:connection_established''),
                                  (''data'', JStr ''EST_DATA'')]),
                 FetchAuth 1 (JStr ''123.456'') ''presence-room'',
                 WsSend 1 (JObj [(''event'', JStr ''realtime:unsubscribe''),
                                 (''data'', JSON_stringify demo_runtime
                                              (JObj [(''channel'', JStr ''presence-room'')]))])]\<rparr>"
  by (simp add: unsubscribed_in_flight_def awaiting_auth_eq client_simps Let_def emitEffect_def
      send_def clearPresenceState_state_def)

text \<open>
  C9.  The code at the input of the claim.  \<open>presence-room\<close> is subscribed on a
  connected client and unsubscribed while its authentication call is in flight: the
  channel is out of the registry and no identity is pending.  Then the call resolves with
  valid channel data: the continuation of \<open>sendSubscribe\<close> stores a pending identity
  for the name (and sends a subscribe frame).  The entry is still there after each of the
  next subscription-success frame, subscription-error frame and \<open>unsubscribe\<close> call
  for that name, since the router and \<open>unsubscribe\<close> return early for a name that is
  not registered.
\<close>

theorem pending_identity_survives_unsubscribe_race:
  "Apinator_channel unsubscribed_in_flight ''presence-room'' = None
   \<and> pendingPresenceSelf unsubscribed_in_flight ''presence-room'' = None
   \<and> pendingPresenceSelf
        (step demo_runtime (AuthSettles 1 (AuthResponse (JStr ''key:sig'') (JStr ''SELF'')))
           unsubscribed_in_flight) ''presence-room''
       = Some \<lparr>user_id = ''1'', user_info = JObj [(''name'', JStr ''Alice'')]\<rparr>
   \<and> pendingPresenceSelf
        (run demo_runtime [AuthSettles 1 (AuthResponse (JStr ''key:sig'') (JStr ''SELF'')),
                           WsMessage 1 ''SUB_OK'']
           unsubscribed_in_flight) ''presence-room''
       = Some \<lparr>user_id = ''1'', user_info = JObj [(''name'', JStr ''Alice'')]\<rparr>
   \<and> pendingPresenceSelf
        (run demo_runtime [AuthSettles 1 (AuthResponse (JStr ''key:sig'') (JStr ''SELF'')),
                           WsMessage 1 ''SUB_ERR'']
           unsubscribed_in_flight) ''presence-room''
       = Some \<lparr>user_id = ''1'', user_info = JObj [(''name'', JStr ''Alice'')]\<rparr>
   \<and> pendingPresenceSelf
        (run demo_runtime [AuthSettles 1 (AuthResponse (JStr ''key:sig'') (JStr ''SELF'')),
                           UserUnsubscribe ''presence-room'']
           unsubscribed_in_flight) ''presence-room''
       = Some \<lparr>user_id = ''1'', user_info = JObj [(''name'', JStr ''Alice'')]\<rparr>"
  by (simp add: unsubscribed_in_flight_eq Apinator_channel_def run_simps runtime_simps conn_simps
      client_simps Let_def)

subsection \<open>Presence channels need a self-identity\<close>

lemma parsePresenceSelf_None:
  "(parsePresenceSelf B cd = None) = (\<not> decodes_to_identity B cd)"
proof (cases "JSON_parse B cd")
  case None
  then show ?thesis by (simp add: parsePresenceSelf_def decodes_to_identity_def)
next
  case (Some parsed)
  have n: "nullish parsed \<Longrightarrow> js_get parsed k = JUndefined" for k
    by (auto simp: nullish_def)
  show ?thesis
    using Some n
    by (cases "js_get parsed ''user_id''"; cases "js_get parsed ''user_info''")
       (auto simp: parsePresenceSelf_def decodes_to_identity_def Let_def)
qed

lemma run_callback_grows: "\<exists>es. effects (run_callback B d cb s) = effects s @ es"
  by (cases cb) (auto simp: emitEffect_def send_def split: option.splits)

lemma fold_callbacks_grows: "\<exists>es. effects (fold (run_callback B d) cbs s) = effects s @ es"
proof (induction cbs arbitrary: s)
  case Nil then show ?case by simp
next
  case (Cons cb cbs)
  from run_callback_grows[of B d cb s] obtain es where
    e: "effects (run_callback B d cb s) = effects s @ es" ..
  from Cons.IH[of "run_callback B d cb s"] obtain es' where
    "effects (fold (run_callback B d) cbs (run_callback B d cb s)) = effects (run_callback B d cb s) @ es'" ..
  with e show ?case by simp
qed

lemma user_callbacks_called:
  "UserFn k \<in> set cbs \<Longrightarrow> Called k d \<in> set (effects (fold (run_callback B d) cbs s))"
proof (induction cbs arbitrary: s)
  case Nil then show ?case by simp
next
  case (Cons cb cbs)
  show ?case
  proof (cases "cb = UserFn k")
    case True
    from fold_callbacks_grows[of B d cbs "run_callback B d cb s"] obtain es where
      "effects (fold (run_callback B d) cbs (run_callback B d cb s)) = effects (run_callback B d cb s) @ es" ..
    with True show ?thesis by (simp add: emitEffect_def)
  next
    case False
    with Cons.prems have "UserFn k \<in> set cbs" by simp
    from Cons.IH[OF this] show ?thesis by simp
  qed
qed

lemma no_subscribe_run_callback:
  "js_get d ''event'' \<noteq> JStr ''realtime:subscribe'' \<Longrightarrow>
   filter is_subscribe_send (effects (run_callback B d cb s)) = filter is_subscribe_send (effects s)"
  by (cases cb) (auto simp: emitEffect_def send_def split: option.splits)

lemma no_subscribe_fold:
  "js_get d ''event'' \<noteq> JStr ''realtime:subscribe'' \<Longrightarrow>
   filter is_subscribe_send (effects (fold (run_callback B d) cbs s))
     = filter is_subscribe_send (effects s)"
  by (induction cbs arbitrary: s) (simp_all add: no_subscribe_run_callback)

lemma pending_fold_callbacks:
  "pendingPresenceSelf (fold (run_callback B d) cbs s) = pendingPresenceSelf s"
proof (induction cbs arbitrary: s)
  case Nil then show ?case by simp
next
  case (Cons cb cbs)
  have "pendingPresenceSelf (run_callback B d cb s) = pendingPresenceSelf s"
    by (cases cb) (auto simp: emitEffect_def send_def split: option.splits)
  with Cons.IH show ?case by simp
qed

lemma handleError_signal:
  assumes "heap s cid = Some ch" "js_get d ''event'' \<noteq> JStr ''realtime:subscribe''"
  shows "heap (Channel_handleError B cid d s) cid = Some (ch\<lparr>subscribed := False\<rparr>)"
    and "UserFn k \<in> set (listeners ch ''realtime:subscription_error'') \<Longrightarrow>
         Called k d \<in> set (effects (Channel_handleError B cid d s))"
    and "filter is_subscribe_send (effects (Channel_handleError B cid d s))
          = filter is_subscribe_send (effects s)"
    and "pendingPresenceSelf (Channel_handleError B cid d s) = pendingPresenceSelf s"
  using assms
  by (auto simp: Channel_handleError_def emit_def upd_chan_def listeners_def heap_fold_callbacks
      user_callbacks_called no_subscribe_fold pending_fold_callbacks split: option.splits)

text \<open>
  C7, as the code has it.  When the authentication call for a presence channel succeeds
  and the response has no \<open>channel_data\<close>, or an empty one (any falsy value), the
  handshake signals a subscription error \<open>{type: "AuthError", error: "channel_data
  required for presence channels", status: 403}\<close>; when \<open>channel_data\<close> is not empty
  but does not decode to an object with a non-empty string \<open>user_id\<close> and a non-array
  object \<open>user_info\<close>, it signals the same with the error \<open>"invalid channel_data"\<close>.
  In both cases: the channel's \<open>handleError\<close> is called with that payload after the
  pending identity of the name has been dropped, so the channel is marked unsubscribed,
  every user callback bound to \<open>realtime:subscription_error\<close> on it receives the
  payload, no subscribe frame is sent, and no identity is pending for the name.
\<close>

theorem presence_needs_channel_data:
  fixes B s r cid ch auth cd k
  defines "s' \<equiv> sendSubscribe_resume B r (AuthResponse auth cd) s"
  defines "reason \<equiv> (if \<not> truthy cd then ''channel_data required for presence channels''
                       else ''invalid channel_data'')"
  assumes "inflight s r = Some cid" and "heap s cid = Some ch"
    and "starts_with ''presence-'' (name ch)"
    and "\<not> truthy cd \<or> \<not> decodes_to_identity B cd"
  shows "s' = Channel_handleError B cid (auth_error reason)
               (s\<lparr>inflight := (inflight s)(r := None),
                  pendingPresenceSelf := (pendingPresenceSelf s)(name ch := None)\<rparr>)
       \<and> auth_error reason
           = JObj [(''type'', JStr ''AuthError''), (''error'', JStr reason), (''status'', JNum (Fin 403))]
       \<and> heap s' cid = Some (ch\<lparr>subscribed := False\<rparr>)
       \<and> (UserFn k \<in> set (listeners ch ''realtime:subscription_error'')
            \<longrightarrow> Called k (auth_error reason) \<in> set (effects s'))
       \<and> filter is_subscribe_send (effects s') = filter is_subscribe_send (effects s)
       \<and> pendingPresenceSelf s' (name ch) = None"
proof -
  let ?s0 = "s\<lparr>inflight := (inflight s)(r := None),
               pendingPresenceSelf := (pendingPresenceSelf s)(name ch := None)\<rparr>"
  have "truthy cd \<Longrightarrow> parsePresenceSelf B cd = None"
    using assms(6) by (simp add: parsePresenceSelf_None)
  then have eq: "s' = Channel_handleError B cid (auth_error reason) ?s0"
    using assms(3-5)
    by (auto simp: s'_def reason_def sendSubscribe_resume_def Let_def)
  have h: "heap ?s0 cid = Some ch" using assms(4) by simp
  have e: "js_get (auth_error reason) ''event'' \<noteq> JStr ''realtime:subscribe''"
    by (simp add: auth_error_def)
  note sig = handleError_signal[OF h e, where B=B]
  show ?thesis
    using sig(1) sig(2)[where k=k] sig(3) sig(4)
    by (simp add: eq auth_error_def)
qed

theorem presence_needs_channel_data_witness:
  "inflight awaiting_auth 1 = Some 0
   \<and> \<not> truthy JUndefined
   \<and> truthy (JStr ''BAD'') \<and> \<not> decodes_to_identity demo_runtime (JStr ''BAD'')
   \<and> Called 7 (auth_error ''channel_data required for presence channels'')
       \<in> set (effects (sendSubscribe_resume demo_runtime 1 (AuthResponse (JStr ''key:sig'') JUndefined)
                        awaiting_auth))
   \<and> Called 7 (auth_error ''invalid channel_data'')
       \<in> set (effects (sendSubscribe_resume demo_runtime 1 (AuthResponse (JStr ''key:sig'') (JStr ''BAD''))
                        awaiting_auth))
   \<and> filter is_subscribe_send
        (effects (sendSubscribe_resume demo_runtime 1 (AuthResponse (JStr ''key:sig'') (JStr ''BAD''))
                    awaiting_auth))
       = filter is_subscribe_send (effects awaiting_auth)"
proof -
  let ?ch = "\<lparr>name = ''presence-room'',
                       bindings = [(''__internal_trigger'', [InternalTrigger ''presence-room'']),
                                   (''realtime:subscription_error'', [UserFn 7])],
                       subscribed = False, isPresenceChannel = True,
                       presence = \<lparr>count = JNum (Fin 0), ids = [], hash = JObj []\<rparr>, self = None\<rparr>"
  have i: "inflight awaiting_auth 1 = Some 0" and h: "heap awaiting_auth 0 = Some ?ch"
    by (simp_all add: awaiting_auth_eq)
  have p: "starts_with ''presence-'' (name ?ch)" by (simp add: starts_with_def)
  have l: "UserFn 7 \<in> set (listeners ?ch ''realtime:subscription_error'')"
    by (simp add: listeners_def)
  have a: "\<not> truthy JUndefined \<or> \<not> decodes_to_identity demo_runtime JUndefined" by simp
  have b: "\<not> decodes_to_identity demo_runtime (JStr ''BAD'')"
    by (simp add: decodes_to_identity_def runtime_simps)
  then have b': "\<not> truthy (JStr ''BAD'') \<or> \<not> decodes_to_identity demo_runtime (JStr ''BAD'')" ..
  note t1 = presence_needs_channel_data[OF i h p a, of "JStr ''key:sig''" 7]
  note t2 = presence_needs_channel_data[OF i h p b', of "JStr ''key:sig''" 7]
  have tr: "\<not> truthy JUndefined" "truthy (JStr ''BAD'')" by simp_all
  have c1: "Called 7 (auth_error ''channel_data required for presence channels'')
       \<in> set (effects (sendSubscribe_resume demo_runtime 1 (AuthResponse (JStr ''key:sig'') JUndefined)
                        awaiting_auth))"
    using mp[OF t1[THEN conjunct2, THEN conjunct2, THEN conjunct2, THEN conjunct1] l] by simp
  have c2: "Called 7 (auth_error ''invalid channel_data'')
       \<in> set (effects (sendSubscribe_resume demo_runtime 1 (AuthResponse (JStr ''key:sig'') (JStr ''BAD''))
                        awaiting_auth))"
    using mp[OF t2[THEN conjunct2, THEN conjunct2, THEN conjunct2, THEN conjunct1] l] by simp
  have c3: "filter is_subscribe_send
        (effects (sendSubscribe_resume demo_runtime 1 (AuthResponse (JStr ''key:sig'') (JStr ''BAD''))
                    awaiting_auth))
       = filter is_subscribe_send (effects awaiting_auth)"
    by (rule t2[THEN conjunct2, THEN conjunct2, THEN conjunct2, THEN conjunct2, THEN conjunct1])
  show ?thesis using i tr b c1 c2 c3 by blast
qed

text \<open>
  C7 as stated fails for a channel data that is present and empty: the empty string does
  not decode, and the error that is signalled is the one for missing channel data, not
  \<open>"invalid channel_data"\<close>.
\<close>

theorem empty_channel_data_reported_as_missing:
  "JSON_parse demo_runtime (JStr '''') = None
   \<and> last (effects (step demo_runtime (AuthSettles 1 (AuthResponse (JStr ''key:sig'') (JStr '''')))
                     awaiting_auth))
       = Called 7 (auth_error ''channel_data required for presence channels'')
   \<and> Called 7 (auth_error ''invalid channel_data'')
       \<notin> set (effects (step demo_runtime (AuthSettles 1 (AuthResponse (JStr ''key:sig'') (JStr '''')))
                        awaiting_auth))"
  by (simp add: awaiting_auth_eq runtime_simps client_simps Let_def emitEffect_def)

end
